theory Spec2Isabelle
  imports Complex_Main "HOL-Library.Multiset"
begin

section \<open>NutriKid: BMI classification and dashboard aggregation\<close>

text \<open>
  A shallow embedding of the aggregation helpers of \<^verbatim>\<open>app/routes/school.py\<close> and
  \<^verbatim>\<open>app/routes/super_admin.py\<close>.

  \<^item> The value of a Python \<^verbatim>\<open>float\<close> is a rational number (only finite values are
    modelled), and comparing two of them is exact: every threshold of the code (16, 18.5,
    25, 30) is a double. The operations that round (division, multiplication, addition,
    \<^verbatim>\<open>sum\<close>, \<^verbatim>\<open>round\<close>) are not computed here: they are the fields of a record
    \<open>float_arith\<close> that every function with float arithmetic takes as its first argument,
    so what is proved holds for the arithmetic of the interpreter, whatever it rounds to.
  \<^item> A Python function can raise. A call is therefore a value of \<open>error + 'a\<close>
    (\<open>Inl\<close> the exception), and \<^verbatim>\<open>try ... except Exception\<close> is the
    combinator \<open>try_except\<close>.
  \<^item> A \<^verbatim>\<open>dict\<close> with string keys is a map \<open>string \<rightharpoonup> int\<close>; reading a missing
    key raises \<open>KeyError\<close>.
  \<^item> A row of the \<^verbatim>\<open>Student\<close> table is a record with the columns the helpers read.
\<close>

subsection \<open>Data model\<close>

datatype error = KeyError | TypeError | ZeroDivisionError | IndexError | DatabaseError

type_synonym 'a result = "error + 'a"

record date =
  year :: int
  month :: int

record student =
  bmi :: "rat option"
  is_beneficiary :: bool
  created_at :: "date option"
  updated_at :: "date option"

type_synonym distribution = "string \<rightharpoonup> int"

text \<open>
  The float arithmetic of the interpreter: \<^verbatim>\<open>a / b\<close> for a divisor that is not 0 (also
  of two ints, whose quotient is a float), \<^verbatim>\<open>a * b\<close>, \<^verbatim>\<open>a + b\<close>, the built-in
  \<^verbatim>\<open>sum\<close> of a sequence of floats, and \<^verbatim>\<open>round(x, 1)\<close> of a float.
\<close>

record float_arith =
  fdiv :: "rat \<Rightarrow> rat \<Rightarrow> rat"
  fmul :: "rat \<Rightarrow> rat \<Rightarrow> rat"
  fadd :: "rat \<Rightarrow> rat \<Rightarrow> rat"
  fsum :: "rat list \<Rightarrow> rat"
  fround :: "rat \<Rightarrow> rat"

subsection \<open>Python primitives\<close>

definition bind :: "'a result \<Rightarrow> ('a \<Rightarrow> 'b result) \<Rightarrow> 'b result" where
  "bind m f = (case m of Inl e \<Rightarrow> Inl e | Inr v \<Rightarrow> f v)"

definition try_except :: "'a result \<Rightarrow> (error \<Rightarrow> 'a result) \<Rightarrow> 'a result" where
  "try_except body handler = (case body of Inl e \<Rightarrow> handler e | Inr v \<Rightarrow> Inr v)"

text \<open>\<^verbatim>\<open>for x in xs: body\<close> over a state; an exception in the body leaves the loop.\<close>

fun for_each :: "('a \<Rightarrow> 's \<Rightarrow> 's result) \<Rightarrow> 'a list \<Rightarrow> 's \<Rightarrow> 's result" where
  "for_each body [] s = Inr s"
| "for_each body (x # xs) s =
     (case body x s of Inl e \<Rightarrow> Inl e | Inr s' \<Rightarrow> for_each body xs s')"

text \<open>\<^verbatim>\<open>[x for x in xs if p(x)]\<close> where the test itself can raise.\<close>

fun comprehension :: "('a \<Rightarrow> bool result) \<Rightarrow> 'a list \<Rightarrow> 'a list result" where
  "comprehension p [] = Inr []"
| "comprehension p (x # xs) =
     (case p x of
        Inl e \<Rightarrow> Inl e
      | Inr b \<Rightarrow> (case comprehension p xs of
                   Inl e \<Rightarrow> Inl e
                 | Inr ys \<Rightarrow> Inr (if b then x # ys else ys)))"

text \<open>\<^verbatim>\<open>d[k] += 1\<close>\<close>

definition incr :: "string \<Rightarrow> distribution \<Rightarrow> distribution result" where
  "incr k d = (case d k of None \<Rightarrow> Inl KeyError | Some n \<Rightarrow> Inr (d(k \<mapsto> n + 1)))"

text \<open>\<^verbatim>\<open>a / b\<close>\<close>

definition py_div :: "float_arith \<Rightarrow> rat \<Rightarrow> rat \<Rightarrow> rat result" where
  "py_div fl a b = (if b = 0 then Inl ZeroDivisionError else Inr (fdiv fl a b))"

text \<open>
  \<^verbatim>\<open>round(x, 1)\<close>. A zero stays as it is: the int 0 that the guards below put in
  place of a rate is returned by \<^verbatim>\<open>round\<close> unchanged, and \<^verbatim>\<open>round(0.0, 1)\<close> is 0.0.
  Any other value is a float, rounded by the interpreter.
\<close>

definition round1 :: "float_arith \<Rightarrow> rat \<Rightarrow> rat" where
  "round1 fl x = (if x = 0 then 0 else fround fl x)"

text \<open>Truthiness of an optional number: \<^verbatim>\<open>if s.bmi\<close> is false for \<^verbatim>\<open>None\<close> and for 0.\<close>

definition truthy :: "rat option \<Rightarrow> bool" where
  "truthy x = (case x of None \<Rightarrow> False | Some v \<Rightarrow> v \<noteq> 0)"

text \<open>\<^verbatim>\<open>s.bmi is not None and s.bmi > 0\<close>; the \<^verbatim>\<open>and\<close> guards the comparison.\<close>

definition has_valid_bmi :: "student \<Rightarrow> bool" where
  "has_valid_bmi s = (case bmi s of None \<Rightarrow> False | Some b \<Rightarrow> 0 < b)"

text \<open>SQL \<^verbatim>\<open>bmi IS NOT NULL\<close>\<close>

definition bmi_not_null :: "student \<Rightarrow> bool" where
  "bmi_not_null s = (bmi s \<noteq> None)"

text \<open>A test on \<^verbatim>\<open>s.bmi\<close> that is not guarded: comparing \<^verbatim>\<open>None\<close> raises.\<close>

definition on_bmi :: "(rat \<Rightarrow> bool) \<Rightarrow> student \<Rightarrow> bool result" where
  "on_bmi p s = (case bmi s of None \<Rightarrow> Inl TypeError | Some b \<Rightarrow> Inr (p b))"

subsection \<open>\<^verbatim>\<open>_calculate_accurate_bmi_distribution\<close> (school.py)\<close>

definition dist5 :: "int \<Rightarrow> int \<Rightarrow> int \<Rightarrow> int \<Rightarrow> int \<Rightarrow> distribution" where
  "dist5 n w sw ow ob =
     [''normal'' \<mapsto> n, ''wasted'' \<mapsto> w, ''severely_wasted'' \<mapsto> sw,
      ''overweight'' \<mapsto> ow, ''obese'' \<mapsto> ob]"

definition accurate_step :: "student \<Rightarrow> distribution \<Rightarrow> distribution result" where
  "accurate_step student' distribution' =
     (case bmi student' of
        None \<Rightarrow> Inl TypeError
      | Some b \<Rightarrow>
          if b < 16 then incr ''severely_wasted'' distribution'
          else if b < 18.5 then incr ''wasted'' distribution'
          else if b < 25 then incr ''normal'' distribution'
          else if b < 30 then incr ''overweight'' distribution'
          else incr ''obese'' distribution')"

definition calculate_accurate_bmi_distribution :: "student list \<Rightarrow> distribution result" where
  "calculate_accurate_bmi_distribution students =
     try_except
       (let distribution' = dist5 0 0 0 0 0 in
        if students = [] then Inr distribution'
        else
          let students_with_bmi = filter has_valid_bmi students
          in for_each accurate_step students_with_bmi distribution')
       (\<lambda>e. Inr (dist5 0 0 0 0 0))"

subsection \<open>\<^verbatim>\<open>_calculate_student_bmi_distribution\<close> (school.py)\<close>

definition dist4 :: "int \<Rightarrow> int \<Rightarrow> int \<Rightarrow> int \<Rightarrow> distribution" where
  "dist4 n w sw ow =
     [''normal'' \<mapsto> n, ''wasted'' \<mapsto> w, ''severely_wasted'' \<mapsto> sw, ''overweight'' \<mapsto> ow]"

definition student_step :: "student \<Rightarrow> distribution \<Rightarrow> distribution result" where
  "student_step student' distribution' =
     (case bmi student' of
        None \<Rightarrow> Inl TypeError
      | Some b \<Rightarrow>
          if b < 16 then incr ''severely_wasted'' distribution'
          else if b < 18.5 then incr ''wasted'' distribution'
          else if b < 25 then incr ''normal'' distribution'
          else incr ''overweight'' distribution')"

definition calculate_student_bmi_distribution :: "student list \<Rightarrow> distribution result" where
  "calculate_student_bmi_distribution students =
     try_except
       (let distribution' = dist4 0 0 0 0 in
        if students = [] then Inr distribution'
        else
          let students_with_bmi = filter has_valid_bmi students
          in for_each student_step students_with_bmi distribution')
       (\<lambda>e. Inr (dist4 0 0 0 0))"

subsection \<open>The BMI loop of \<^verbatim>\<open>_get_super_admin_dashboard_data\<close> (school.py)\<close>

text \<open>
  The argument is the list of rows that \<^verbatim>\<open>student_filter\<close> selects; the query
  \<^verbatim>\<open>student_filter.filter(Student.bmi != None).all()\<close> keeps the rows with a bmi.
\<close>

definition dist6 :: "int \<Rightarrow> int \<Rightarrow> int \<Rightarrow> int \<Rightarrow> int \<Rightarrow> int \<Rightarrow> distribution" where
  "dist6 uw n ow ob sw w =
     [''underweight'' \<mapsto> uw, ''normal'' \<mapsto> n, ''overweight'' \<mapsto> ow, ''obese'' \<mapsto> ob,
      ''severely_wasted'' \<mapsto> sw, ''wasted'' \<mapsto> w]"

definition system_step :: "student \<Rightarrow> distribution \<Rightarrow> distribution result" where
  "system_step student' bmi_distribution =
     (case bmi student' of
        None \<Rightarrow> Inl TypeError
      | Some b \<Rightarrow>
          if b < 16 then incr ''severely_wasted'' bmi_distribution
          else if b < 18.5 then incr ''wasted'' bmi_distribution
          else if b < 25 then incr ''normal'' bmi_distribution
          else if b < 30 then incr ''overweight'' bmi_distribution
          else incr ''obese'' bmi_distribution)"

definition system_bmi_distribution :: "student list \<Rightarrow> distribution result" where
  "system_bmi_distribution student_filter =
     (let bmi_distribution = dist6 0 0 0 0 0 0;
          students_with_bmi = filter bmi_not_null student_filter
      in for_each system_step students_with_bmi bmi_distribution)"

subsection \<open>The BMI loop of \<^verbatim>\<open>dashboard\<close> (super_admin.py)\<close>

definition dist7 :: "int \<Rightarrow> int \<Rightarrow> int \<Rightarrow> int \<Rightarrow> int \<Rightarrow> int \<Rightarrow> int \<Rightarrow> distribution" where
  "dist7 n uw ow ob su sw w =
     [''normal'' \<mapsto> n, ''underweight'' \<mapsto> uw, ''overweight'' \<mapsto> ow, ''obese'' \<mapsto> ob,
      ''severely_underweight'' \<mapsto> su, ''severely_wasted'' \<mapsto> sw, ''wasted'' \<mapsto> w]"

definition dashboard_step :: "student \<Rightarrow> distribution \<Rightarrow> distribution result" where
  "dashboard_step student' bmi_distribution =
     (case bmi student' of
        None \<Rightarrow> Inl TypeError
      | Some b \<Rightarrow>
          if b < 16 then
            bind (incr ''severely_underweight'' bmi_distribution) (incr ''severely_wasted'')
          else if b < 18.5 then
            bind (incr ''underweight'' bmi_distribution) (incr ''wasted'')
          else if b < 25 then incr ''normal'' bmi_distribution
          else if b < 30 then incr ''overweight'' bmi_distribution
          else incr ''obese'' bmi_distribution)"

definition dashboard_bmi_distribution :: "student list \<Rightarrow> distribution result" where
  "dashboard_bmi_distribution student_filter =
     (let bmi_distribution = dist7 0 0 0 0 0 0 0;
          students_with_bmi = filter bmi_not_null student_filter
      in for_each dashboard_step students_with_bmi bmi_distribution)"

subsection \<open>Counting\<close>

definition bmi_in :: "(rat \<Rightarrow> bool) \<Rightarrow> student \<Rightarrow> bool" where
  "bmi_in p s = (case bmi s of None \<Rightarrow> False | Some b \<Rightarrow> p b)"

definition count_where :: "('a \<Rightarrow> bool) \<Rightarrow> 'a list \<Rightarrow> int" where
  "count_where p xs = int (length (filter p xs))"

text \<open>The five category keys, and the sum of their counts in a summary.\<close>

definition category_keys :: "string list" where
  "category_keys = [''severely_wasted'', ''wasted'', ''normal'', ''overweight'', ''obese'']"

definition count_of :: "distribution \<Rightarrow> string \<Rightarrow> int" where
  "count_of d k = (case d k of None \<Rightarrow> 0 | Some n \<Rightarrow> n)"

definition category_total :: "distribution \<Rightarrow> int" where
  "category_total d = sum_list (map (count_of d) category_keys)"

subsection \<open>At-risk students\<close>

text \<open>\<^verbatim>\<open>_get_at_risk_students\<close> (school.py); \<^verbatim>\<open>list.sort\<close> is stable, as \<open>sort_key\<close> is.\<close>

definition bmi_sort_key :: "student \<Rightarrow> rat" where
  "bmi_sort_key s = (if truthy (bmi s) then (case bmi s of None \<Rightarrow> 0 | Some b \<Rightarrow> b) else 0)"

definition get_at_risk_students :: "student list \<Rightarrow> student list result" where
  "get_at_risk_students school_students =
     try_except
       (if school_students = [] then Inr []
        else
          let at_risk =
                filter (\<lambda>student'. has_valid_bmi student' \<and>
                          bmi_in (\<lambda>b. b < 16 \<or> 30 \<le> b) student') school_students
          in Inr (sort_key bmi_sort_key at_risk))
       (\<lambda>e. Inr [])"

text \<open>
  \<^verbatim>\<open>dashboard\<close> (super_admin.py): the query
  \<^verbatim>\<open>filter(Student.bmi.isnot(None), (Student.bmi < 18.5) | (Student.bmi >= 25)).count()\<close>.
\<close>

definition at_risk_query_count :: "student list \<Rightarrow> int" where
  "at_risk_query_count student_filter =
     count_where (\<lambda>s. bmi_not_null s \<and> bmi_in (\<lambda>b. b < 18.5 \<or> 25 \<le> b) s) student_filter"

subsection \<open>Rates\<close>

text \<open>\<^verbatim>\<open>system_metrics['beneficiary_coverage']\<close> of \<^verbatim>\<open>dashboard\<close> (super_admin.py).\<close>

definition beneficiary_coverage :: "float_arith \<Rightarrow> student list \<Rightarrow> rat result" where
  "beneficiary_coverage fl student_filter =
     (let total_students = int (length student_filter);
          beneficiaries = count_where is_beneficiary student_filter
      in if 0 < total_students
         then bind (py_div fl (of_int beneficiaries) (of_int (max total_students 1)))
                (\<lambda>q. Inr (fmul fl q 100))
         else Inr 0)"

text \<open>\<^verbatim>\<open>_calculate_school_performance\<close> (school.py): the rates of one school.\<close>

definition data_completeness_rate :: "float_arith \<Rightarrow> student list \<Rightarrow> rat result" where
  "data_completeness_rate fl students =
     (let student_count = int (length students);
          with_bmi_data = count_where (\<lambda>s. truthy (bmi s)) students
      in if 0 < student_count
         then bind (py_div fl (of_int with_bmi_data) (of_int student_count)) (\<lambda>q. Inr (fmul fl q 100))
         else Inr 0)"

definition improvement_rate_of :: "float_arith \<Rightarrow> student list \<Rightarrow> rat result" where
  "improvement_rate_of fl students =
     (let beneficiaries = count_where is_beneficiary students;
          improved = count_where (\<lambda>s. truthy (bmi s) \<and> bmi_in (\<lambda>b. 18.5 \<le> b \<and> b < 25) s \<and>
                                     is_beneficiary s) students
      in if 0 < beneficiaries
         then bind (py_div fl (of_int improved) (of_int beneficiaries)) (\<lambda>q. Inr (fmul fl q 100))
         else Inr 0)"

record school_entry =
  name :: string
  students_count :: int
  beneficiaries :: int
  at_risk :: int
  performance_score :: rat
  data_completeness :: rat
  improvement_rate :: rat

definition school_metrics :: "float_arith \<Rightarrow> string \<Rightarrow> student list \<Rightarrow> school_entry result" where
  "school_metrics fl school_name students =
     (let student_count = int (length students) in
      if student_count = 0 then
        Inr \<lparr>name = school_name, students_count = student_count, beneficiaries = 0,
             at_risk = 0, performance_score = 0, data_completeness = round1 fl 0,
             improvement_rate = round1 fl 0\<rparr>
      else
        bind (data_completeness_rate fl students) (\<lambda>dc.
        bind (improvement_rate_of fl students) (\<lambda>ir.
          Inr \<lparr>name = school_name, students_count = student_count,
               beneficiaries = count_where is_beneficiary students,
               at_risk = count_where (\<lambda>s. truthy (bmi s) \<and>
                                        bmi_in (\<lambda>b. b < 18.5 \<or> 25 \<le> b) s) students,
               performance_score = round1 fl (fdiv fl (fadd fl dc ir) 2),
               data_completeness = round1 fl dc,
               improvement_rate = round1 fl ir\<rparr>)))"

text \<open>
  The argument is what \<^verbatim>\<open>School.query.all()\<close> and the query of each school's students
  return: every school's name with its rows, or the database's exception.
  \<^verbatim>\<open>sort(reverse=True)\<close> keeps the order of equal scores.
\<close>

definition calculate_school_performance ::
    "float_arith \<Rightarrow> (string \<times> student list) list result \<Rightarrow> school_entry list result" where
  "calculate_school_performance fl schools_query =
     try_except
       (bind schools_query (\<lambda>schools.
        bind (for_each (\<lambda>(school_name, students) school_performance.
                bind (school_metrics fl school_name students)
                  (\<lambda>entry. Inr (school_performance @ [entry]))) schools [])
          (\<lambda>school_performance.
             Inr (rev (sort_key performance_score (rev school_performance))))))
       (\<lambda>e. Inr [])"

subsection \<open>\<^verbatim>\<open>_calculate_progress_trends\<close> (school.py)\<close>

text \<open>The \<^verbatim>\<open>Student\<close> table as the queries of one request see it, or the exception they raise.\<close>

type_synonym database = "student list result"

definition query_all :: "database \<Rightarrow> (student \<Rightarrow> bool) \<Rightarrow> student list result" where
  "query_all db p = bind db (\<lambda>rows. Inr (filter p rows))"

definition query_count :: "database \<Rightarrow> int result" where
  "query_count db = bind db (\<lambda>rows. Inr (int (length rows)))"

record progress_trends =
  trend_labels :: "string list"
  trend_values :: "rat list"
  nutritional_improvement :: rat
  program_compliance :: rat
  data_quality :: rat

definition no_trends :: progress_trends where
  "no_trends = \<lparr>trend_labels = [], trend_values = [], nutritional_improvement = 0,
                 program_compliance = 0, data_quality = 0\<rparr>"

definition program_compliance_rate :: "float_arith \<Rightarrow> student list \<Rightarrow> rat result" where
  "program_compliance_rate fl students_with_bmi =
     bind (comprehension (on_bmi (\<lambda>b. b < 18.5 \<or> 25 \<le> b)) students_with_bmi)
       (\<lambda>at_risk_students.
          let at_risk_in_program = count_where is_beneficiary at_risk_students in
          if at_risk_students \<noteq> [] then
            bind (py_div fl (of_int at_risk_in_program) (of_nat (length at_risk_students)))
              (\<lambda>q. Inr (round1 fl (fmul fl q 100)))
          else Inr 0)"

definition calculate_progress_trends :: "float_arith \<Rightarrow> database \<Rightarrow> student list \<Rightarrow> progress_trends result" where
  "calculate_progress_trends fl db students_with_bmi =
     try_except
       (if students_with_bmi = [] then Inr no_trends
        else
          bind (comprehension (on_bmi (\<lambda>b. 18.5 \<le> b \<and> b < 25)) students_with_bmi) (\<lambda>healthy.
          bind (py_div fl (of_nat (length healthy)) (of_nat (length students_with_bmi))) (\<lambda>q.
          bind (program_compliance_rate fl students_with_bmi) (\<lambda>pc.
          bind (query_count db) (\<lambda>total_students.
          bind (if 0 < total_students then
                  bind (py_div fl (of_nat (length students_with_bmi)) (of_int total_students))
                    (\<lambda>r. Inr (round1 fl (fmul fl r 100)))
                else Inr 0) (\<lambda>dq.
            Inr \<lparr>trend_labels = [], trend_values = [],
                 nutritional_improvement = round1 fl (fmul fl q 100),
                 program_compliance = pc, data_quality = dq\<rparr>))))))
       (\<lambda>e. Inr no_trends)"

subsection \<open>\<^verbatim>\<open>_calculate_health_metrics\<close> (school.py)\<close>

record health_metrics =
  improved_count :: int
  stable_count :: int
  declined_count :: int
  health_improvement_rate :: rat

definition no_health_metrics :: health_metrics where
  "no_health_metrics = \<lparr>improved_count = 0, stable_count = 0, declined_count = 0,
                         health_improvement_rate = 0\<rparr>"

definition calculate_health_metrics :: "float_arith \<Rightarrow> student list \<Rightarrow> health_metrics result" where
  "calculate_health_metrics fl beneficiary_students =
     try_except
       (if beneficiary_students = [] then Inr no_health_metrics
        else
          let total = int (length beneficiary_students);
              improved = count_where (\<lambda>s. has_valid_bmi s \<and>
                            bmi_in (\<lambda>b. 18.5 \<le> b \<and> b < 25) s) beneficiary_students;
              stable = count_where (\<lambda>s. has_valid_bmi s \<and>
                            bmi_in (\<lambda>b. 16 \<le> b \<and> b < 18.5 \<or> 25 \<le> b \<and> b < 30) s)
                         beneficiary_students;
              declined = count_where (\<lambda>s. has_valid_bmi s \<and>
                            bmi_in (\<lambda>b. b < 16 \<or> 30 \<le> b) s) beneficiary_students
          in bind (if 0 < total
                   then bind (py_div fl (of_int improved) (of_int total)) (\<lambda>q. Inr (fmul fl q 100))
                   else Inr 0)
               (\<lambda>rate. Inr \<lparr>improved_count = improved, stable_count = stable,
                             declined_count = declined,
                             health_improvement_rate = round1 fl rate\<rparr>))
       (\<lambda>e. Inr no_health_metrics)"

subsection \<open>\<^verbatim>\<open>_calculate_improved_bmi_progress\<close> (school.py)\<close>

text \<open>\<^verbatim>\<open>xs[i]\<close>: a negative index counts from the end.\<close>

definition py_index :: "'a list \<Rightarrow> int \<Rightarrow> 'a result" where
  "py_index xs i =
     (if 0 \<le> i \<and> i < int (length xs) then Inr (xs ! nat i)
      else if - int (length xs) \<le> i \<and> i < 0 then Inr (xs ! nat (int (length xs) + i))
      else Inl IndexError)"

text \<open>\<^verbatim>\<open>calendar.month_abbr\<close> and \<^verbatim>\<open>calendar.month_name\<close>\<close>

definition month_abbr :: "string list" where
  "month_abbr = ['''', ''Jan'', ''Feb'', ''Mar'', ''Apr'', ''May'', ''Jun'',
                 ''Jul'', ''Aug'', ''Sep'', ''Oct'', ''Nov'', ''Dec'']"

definition month_name :: "string list" where
  "month_name = ['''', ''January'', ''February'', ''March'', ''April'', ''May'', ''June'',
                 ''July'', ''August'', ''September'', ''October'', ''November'', ''December'']"

record chart =
  chart_labels :: "string list"
  chart_values :: "rat list"

text \<open>
  \<^verbatim>\<open>sum(s.bmi for s in xs)\<close>: the values the generator yields, then their float sum;
  a \<^verbatim>\<open>None\<close> among them cannot be added.
\<close>

fun yielded_bmis :: "student list \<Rightarrow> rat list result" where
  "yielded_bmis [] = Inr []"
| "yielded_bmis (s # ss) =
     (case bmi s of
        None \<Rightarrow> Inl TypeError
      | Some b \<Rightarrow> bind (yielded_bmis ss) (\<lambda>vs. Inr (b # vs)))"

definition sum_bmi :: "float_arith \<Rightarrow> student list \<Rightarrow> rat result" where
  "sum_bmi fl xs = bind (yielded_bmis xs) (\<lambda>vs. Inr (fsum fl vs))"

definition average_bmi :: "float_arith \<Rightarrow> student list \<Rightarrow> rat result" where
  "average_bmi fl xs = bind (sum_bmi fl xs) (\<lambda>t. py_div fl t (of_nat (length xs)))"

text \<open>
  \<^verbatim>\<open>s.created_at and s.created_at.month == month_date.month and
  s.created_at.year == month_date.year\<close>
\<close>

definition created_in :: "date \<Rightarrow> student \<Rightarrow> bool" where
  "created_in month_date s =
     (case created_at s of
        None \<Rightarrow> False
      | Some c \<Rightarrow> month c = month month_date \<and> year c = year month_date)"

text \<open>
  One round of the loop \<^verbatim>\<open>for i in range(6)\<close>. The argument \<open>month_date_of i\<close> is
  \<^verbatim>\<open>current_date - timedelta(days=30*i)\<close>, which the datetime library computes;
  \<^verbatim>\<open>insert(0, x)\<close> puts \<open>x\<close> in front.
\<close>

definition improved_step ::
    "float_arith \<Rightarrow> (nat \<Rightarrow> date) \<Rightarrow> student list \<Rightarrow> nat \<Rightarrow> string list \<times> rat list \<Rightarrow>
     (string list \<times> rat list) result" where
  "improved_step fl month_date_of students i state =
     (case state of (months, bmi_values) \<Rightarrow>
        let month_date = month_date_of i in
        bind (py_index month_abbr (month month_date)) (\<lambda>month_name'.
          let months' = month_name' # months;
              month_students = filter (\<lambda>s. has_valid_bmi s \<and> created_in month_date s) students
          in if month_students \<noteq> [] then
               bind (average_bmi fl month_students)
                 (\<lambda>avg_bmi. Inr (months', round1 fl avg_bmi # bmi_values))
             else
               let all_students_with_bmi = filter has_valid_bmi students in
               if all_students_with_bmi \<noteq> [] then
                 bind (average_bmi fl all_students_with_bmi)
                   (\<lambda>avg_bmi. Inr (months', round1 fl avg_bmi # bmi_values))
               else Inr (months', 18.5 # bmi_values)))"

definition calculate_improved_bmi_progress ::
    "float_arith \<Rightarrow> (nat \<Rightarrow> date) \<Rightarrow> student list \<Rightarrow> chart result" where
  "calculate_improved_bmi_progress fl month_date_of students =
     try_except
       (bind (for_each (improved_step fl month_date_of students) [0, 1, 2, 3, 4, 5] ([], []))
          (\<lambda>(months, bmi_values).
             Inr \<lparr>chart_labels = months, chart_values = bmi_values\<rparr>))
       (\<lambda>e. Inr \<lparr>chart_labels = [''Jan'', ''Feb'', ''Mar'', ''Apr'', ''May'', ''Jun''],
                  chart_values = [18.5, 18.5, 18.5, 18.5, 18.5, 18.5]\<rparr>)"

subsection \<open>\<^verbatim>\<open>_calculate_monthly_progress_trends\<close> (school.py)\<close>

text \<open>SQL \<^verbatim>\<open>MONTH(created_at) = m OR MONTH(updated_at) = m\<close>; a NULL column selects nothing.\<close>

definition in_month :: "int \<Rightarrow> student \<Rightarrow> bool" where
  "in_month month_num s =
     ((case created_at s of None \<Rightarrow> False | Some c \<Rightarrow> month c = month_num) \<or>
      (case updated_at s of None \<Rightarrow> False | Some u \<Rightarrow> month u = month_num))"

text \<open>
  \<^verbatim>\<open>healthy = len([s for s in xs if 18.5 <= s.bmi < 25])\<close>, then
  \<^verbatim>\<open>healthy / len(xs) * 100\<close>.
\<close>

definition healthy_percentage :: "float_arith \<Rightarrow> student list \<Rightarrow> rat result" where
  "healthy_percentage fl xs =
     bind (comprehension (on_bmi (\<lambda>b. 18.5 \<le> b \<and> b < 25)) xs) (\<lambda>healthy.
     bind (py_div fl (of_nat (length healthy)) (of_nat (length xs))) (\<lambda>q. Inr (fmul fl q 100)))"

definition system_average :: "float_arith \<Rightarrow> database \<Rightarrow> rat result" where
  "system_average fl db =
     bind (query_all db bmi_not_null) (\<lambda>all_students.
       if all_students \<noteq> [] then healthy_percentage fl all_students else Inr 0)"

definition monthly_step ::
    "float_arith \<Rightarrow> database \<Rightarrow> int \<Rightarrow> string list \<times> rat list \<Rightarrow> (string list \<times> rat list) result" where
  "monthly_step fl db month_num state =
     (case state of (months_labels, months_data) \<Rightarrow>
        bind (py_index month_name month_num) (\<lambda>month_name'.
        bind (query_all db (in_month month_num)) (\<lambda>month_students.
        bind (if month_students = [] then system_average fl db
              else
                let with_bmi = filter (\<lambda>s. truthy (bmi s)) month_students in
                if with_bmi \<noteq> [] then healthy_percentage fl with_bmi
                else system_average fl db) (\<lambda>nutritional.
          Inr (months_labels @ [take 3 month_name'],
               months_data @ [round1 fl nutritional])))))"

definition calculate_monthly_progress_trends :: "float_arith \<Rightarrow> database \<Rightarrow> chart result" where
  "calculate_monthly_progress_trends fl db =
     try_except
       (bind (for_each (monthly_step fl db) [1, 2, 3, 4, 5, 6, 7, 8, 9, 10, 11, 12] ([], []))
          (\<lambda>(months_labels, months_data).
             Inr \<lparr>chart_labels = months_labels, chart_values = months_data\<rparr>))
       (\<lambda>e. Inr \<lparr>chart_labels = [''Jan'', ''Feb'', ''Mar'', ''Apr'', ''May'', ''Jun'',
                                  ''Jul'', ''Aug'', ''Sep'', ''Oct'', ''Nov'', ''Dec''],
                  chart_values = [0, 0, 0, 0, 0, 0, 0, 0, 0, 0, 0, 0]\<rparr>)"

subsection \<open>The beneficiary flag in \<^verbatim>\<open>create_student\<close> and \<^verbatim>\<open>edit_student\<close> (school.py)\<close>

text \<open>\<^verbatim>\<open>student.bmi and (student.bmi < 18.5 or student.bmi >= 25)\<close>\<close>

definition unhealthy_bmi :: "rat option \<Rightarrow> bool" where
  "unhealthy_bmi x = (truthy x \<and> (case x of None \<Rightarrow> False | Some b \<Rightarrow> b < 18.5 \<or> 25 \<le> b))"

text \<open>
  Both handlers call \<^verbatim>\<open>student.calculate_bmi()\<close>, a method of the model class
  \<^verbatim>\<open>app.models.student.Student\<close>; it is the parameter \<open>calculate_bmi\<close>. The functions
  give the student as the handler commits it.
\<close>

definition create_student :: "(student \<Rightarrow> student) \<Rightarrow> student \<Rightarrow> student" where
  "create_student calculate_bmi student' =
     (let student'' = calculate_bmi student' in
      if unhealthy_bmi (bmi student'') then student''\<lparr>is_beneficiary := True\<rparr>
      else student'')"

definition edit_student :: "(student \<Rightarrow> student) \<Rightarrow> student \<Rightarrow> student" where
  "edit_student calculate_bmi student' =
     (let student'' = calculate_bmi student' in
      if unhealthy_bmi (bmi student'') then student''\<lparr>is_beneficiary := True\<rparr>
      else student''\<lparr>is_beneficiary := False\<rparr>)"

subsection \<open>The value reported for one month\<close>

text \<open>
  The mean bmi of a list of records (their float sum, divided by their number) and the
  share of healthy ones in percent; and the value that one round of each monthly loop
  adds to the chart when nothing raises.
\<close>

definition mean_bmi :: "float_arith \<Rightarrow> student list \<Rightarrow> rat" where
  "mean_bmi fl xs =
     fdiv fl (fsum fl (map (\<lambda>s. case bmi s of None \<Rightarrow> 0 | Some b \<Rightarrow> b) xs))
       (of_nat (length xs))"

definition healthy_share :: "float_arith \<Rightarrow> student list \<Rightarrow> rat" where
  "healthy_share fl xs =
     fmul fl (fdiv fl (of_nat (length (filter (bmi_in (\<lambda>b. 18.5 \<le> b \<and> b < 25)) xs)))
                (of_nat (length xs))) 100"

definition improved_value :: "float_arith \<Rightarrow> (nat \<Rightarrow> date) \<Rightarrow> student list \<Rightarrow> nat \<Rightarrow> rat" where
  "improved_value fl month_date_of students i =
     (if filter (\<lambda>s. has_valid_bmi s \<and> created_in (month_date_of i) s) students \<noteq> []
      then round1 fl (mean_bmi fl (filter (\<lambda>s. has_valid_bmi s \<and> created_in (month_date_of i) s)
                               students))
      else if filter has_valid_bmi students \<noteq> []
      then round1 fl (mean_bmi fl (filter has_valid_bmi students))
      else 18.5)"

definition monthly_value :: "float_arith \<Rightarrow> student list \<Rightarrow> int \<Rightarrow> rat" where
  "monthly_value fl rows m =
     round1 fl
       (if filter (\<lambda>s. truthy (bmi s)) (filter (in_month m) rows) \<noteq> []
        then healthy_share fl (filter (\<lambda>s. truthy (bmi s)) (filter (in_month m) rows))
        else if filter bmi_not_null rows \<noteq> [] then healthy_share fl (filter bmi_not_null rows)
        else 0)"

subsection \<open>Example rows\<close>

text \<open>
  An arithmetic for the examples. It computes exactly and rounds nothing; the examples
  use halves and quarters with at most one decimal, on which the doubles do the same.
\<close>

definition exact_arith :: float_arith where
  "exact_arith = \<lparr>fdiv = (\<lambda>a b. a / b), fmul = (\<lambda>a b. a * b), fadd = (\<lambda>a b. a + b),
                   fsum = sum_list, fround = (\<lambda>x. x)\<rparr>"

text \<open>A row with the given bmi and beneficiary flag, and no dates.\<close>

definition row :: "rat option \<Rightarrow> bool \<Rightarrow> student" where
  "row b f = \<lparr>bmi = b, is_beneficiary = f, created_at = None, updated_at = None\<rparr>"

section \<open>Properties\<close>

subsection \<open>Counting and the dictionaries\<close>

lemma count_where_Nil [simp]: "count_where p [] = 0"
  by (simp add: count_where_def)

lemma count_where_Cons:
  "count_where p (x # xs) = count_where p [x] + count_where p xs"
  by (simp add: count_where_def)

lemma count_where_single: "count_where p [x] = (if p x then 1 else 0)"
  by (simp add: count_where_def)

lemma count_where_nonneg [simp]: "0 \<le> count_where p xs"
  by (simp add: count_where_def)

lemma count_where_filter:
  "count_where p (filter q xs) = count_where (\<lambda>x. q x \<and> p x) xs"
  by (simp add: count_where_def conj_commute)

lemma count_where_mset: "mset xs = mset ys \<Longrightarrow> count_where p xs = count_where p ys"
proof -
  assume "mset xs = mset ys"
  then have "size (filter_mset p (mset xs)) = size (filter_mset p (mset ys))"
    by simp
  then show ?thesis
    by (simp add: count_where_def flip: mset_filter)
qed

lemma incr_dist5:
  "incr ''normal'' (dist5 n w sw ow ob) = Inr (dist5 (n + 1) w sw ow ob)"
  "incr ''wasted'' (dist5 n w sw ow ob) = Inr (dist5 n (w + 1) sw ow ob)"
  "incr ''severely_wasted'' (dist5 n w sw ow ob) = Inr (dist5 n w (sw + 1) ow ob)"
  "incr ''overweight'' (dist5 n w sw ow ob) = Inr (dist5 n w sw (ow + 1) ob)"
  "incr ''obese'' (dist5 n w sw ow ob) = Inr (dist5 n w sw ow (ob + 1))"
  by (simp_all add: incr_def dist5_def fun_eq_iff)

lemma incr_dist4:
  "incr ''normal'' (dist4 n w sw ow) = Inr (dist4 (n + 1) w sw ow)"
  "incr ''wasted'' (dist4 n w sw ow) = Inr (dist4 n (w + 1) sw ow)"
  "incr ''severely_wasted'' (dist4 n w sw ow) = Inr (dist4 n w (sw + 1) ow)"
  "incr ''overweight'' (dist4 n w sw ow) = Inr (dist4 n w sw (ow + 1))"
  by (simp_all add: incr_def dist4_def fun_eq_iff)

lemma incr_dist6:
  "incr ''normal'' (dist6 uw n ow ob sw w) = Inr (dist6 uw (n + 1) ow ob sw w)"
  "incr ''wasted'' (dist6 uw n ow ob sw w) = Inr (dist6 uw n ow ob sw (w + 1))"
  "incr ''severely_wasted'' (dist6 uw n ow ob sw w) = Inr (dist6 uw n ow ob (sw + 1) w)"
  "incr ''overweight'' (dist6 uw n ow ob sw w) = Inr (dist6 uw n (ow + 1) ob sw w)"
  "incr ''obese'' (dist6 uw n ow ob sw w) = Inr (dist6 uw n ow (ob + 1) sw w)"
  by (simp_all add: incr_def dist6_def fun_eq_iff)

lemma incr_dist7:
  "incr ''normal'' (dist7 n uw ow ob su sw w) = Inr (dist7 (n + 1) uw ow ob su sw w)"
  "incr ''underweight'' (dist7 n uw ow ob su sw w) = Inr (dist7 n (uw + 1) ow ob su sw w)"
  "incr ''overweight'' (dist7 n uw ow ob su sw w) = Inr (dist7 n uw (ow + 1) ob su sw w)"
  "incr ''obese'' (dist7 n uw ow ob su sw w) = Inr (dist7 n uw ow (ob + 1) su sw w)"
  "incr ''severely_underweight'' (dist7 n uw ow ob su sw w) =
     Inr (dist7 n uw ow ob (su + 1) sw w)"
  "incr ''severely_wasted'' (dist7 n uw ow ob su sw w) = Inr (dist7 n uw ow ob su (sw + 1) w)"
  "incr ''wasted'' (dist7 n uw ow ob su sw w) = Inr (dist7 n uw ow ob su sw (w + 1))"
  by (simp_all add: incr_def dist7_def fun_eq_iff)

lemma bind_Inr [simp]: "bind (Inr v) f = f v"
  by (simp add: bind_def)

lemma bind_Inl [simp]: "bind (Inl e) f = Inl e"
  by (simp add: bind_def)

lemma try_except_Inr [simp]: "try_except (Inr v) h = Inr v"
  by (simp add: try_except_def)

lemma try_except_Inl [simp]: "try_except (Inl e) h = h e"
  by (simp add: try_except_def)

lemma upd_dist5:
  "(dist5 n w sw ow ob)(''normal'' \<mapsto> v) = dist5 v w sw ow ob"
  "(dist5 n w sw ow ob)(''wasted'' \<mapsto> v) = dist5 n v sw ow ob"
  "(dist5 n w sw ow ob)(''severely_wasted'' \<mapsto> v) = dist5 n w v ow ob"
  "(dist5 n w sw ow ob)(''overweight'' \<mapsto> v) = dist5 n w sw v ob"
  "(dist5 n w sw ow ob)(''obese'' \<mapsto> v) = dist5 n w sw ow v"
  by (simp_all add: dist5_def fun_eq_iff)

lemma upd_dist7:
  "(dist7 n uw ow ob su sw w)(''normal'' \<mapsto> v) = dist7 v uw ow ob su sw w"
  "(dist7 n uw ow ob su sw w)(''underweight'' \<mapsto> v) = dist7 n v ow ob su sw w"
  "(dist7 n uw ow ob su sw w)(''overweight'' \<mapsto> v) = dist7 n uw v ob su sw w"
  "(dist7 n uw ow ob su sw w)(''obese'' \<mapsto> v) = dist7 n uw ow v su sw w"
  "(dist7 n uw ow ob su sw w)(''severely_underweight'' \<mapsto> v) = dist7 n uw ow ob v sw w"
  "(dist7 n uw ow ob su sw w)(''severely_wasted'' \<mapsto> v) = dist7 n uw ow ob su v w"
  "(dist7 n uw ow ob su sw w)(''wasted'' \<mapsto> v) = dist7 n uw ow ob su sw v"
  by (simp_all add: dist7_def fun_eq_iff)

lemma dom_dist5: "dom (dist5 n w sw ow ob) = set category_keys"
  by (auto simp: dist5_def category_keys_def)

lemma dom_dist4:
  "dom (dist4 n w sw ow) = {''normal'', ''wasted'', ''severely_wasted'', ''overweight''}"
  by (auto simp: dist4_def)

lemma category_total_dist5: "category_total (dist5 n w sw ow ob) = n + w + sw + ow + ob"
  by (simp add: category_total_def category_keys_def count_of_def dist5_def)

lemma category_total_dist6: "category_total (dist6 uw n ow ob sw w) = n + w + sw + ow + ob"
  by (simp add: category_total_def category_keys_def count_of_def dist6_def)

lemma category_total_dist7: "category_total (dist7 n uw ow ob su sw w) = n + w + sw + ow + ob"
  by (simp add: category_total_def category_keys_def count_of_def dist7_def)

subsection \<open>What the four loops compute\<close>

text \<open>
  Each loop leaves, at every key, the number of rows it visits whose bmi lies in the
  key's range. The statements are about any starting counters, as the induction needs.
\<close>

lemma accurate_step_dist5:
  "has_valid_bmi s \<Longrightarrow>
   accurate_step s (dist5 n w sw ow ob) =
     Inr (dist5 (n + count_where (bmi_in (\<lambda>b. 18.5 \<le> b \<and> b < 25)) [s])
                (w + count_where (bmi_in (\<lambda>b. 16 \<le> b \<and> b < 18.5)) [s])
                (sw + count_where (bmi_in (\<lambda>b. b < 16)) [s])
                (ow + count_where (bmi_in (\<lambda>b. 25 \<le> b \<and> b < 30)) [s])
                (ob + count_where (bmi_in (\<lambda>b. 30 \<le> b)) [s]))"
  by (auto simp: has_valid_bmi_def accurate_step_def incr_dist5 bmi_in_def count_where_single
           split: option.splits)

lemma accurate_loop:
  "\<forall>s\<in>set xs. has_valid_bmi s \<Longrightarrow>
   for_each accurate_step xs (dist5 n w sw ow ob) =
     Inr (dist5 (n + count_where (bmi_in (\<lambda>b. 18.5 \<le> b \<and> b < 25)) xs)
                (w + count_where (bmi_in (\<lambda>b. 16 \<le> b \<and> b < 18.5)) xs)
                (sw + count_where (bmi_in (\<lambda>b. b < 16)) xs)
                (ow + count_where (bmi_in (\<lambda>b. 25 \<le> b \<and> b < 30)) xs)
                (ob + count_where (bmi_in (\<lambda>b. 30 \<le> b)) xs))"
proof (induction xs arbitrary: n w sw ow ob)
  case Nil
  then show ?case by simp
next
  case (Cons s xs)
  from Cons.prems have v: "has_valid_bmi s" and rest: "\<forall>s\<in>set xs. has_valid_bmi s"
    by simp_all
  show ?case
    unfolding for_each.simps accurate_step_dist5 [OF v] sum.case Cons.IH [OF rest]
    by (simp only: count_where_Cons [of _ s xs] add.assoc)
qed

lemma accurate_closed:
  "calculate_accurate_bmi_distribution students =
     Inr (dist5
       (count_where (\<lambda>s. has_valid_bmi s \<and> bmi_in (\<lambda>b. 18.5 \<le> b \<and> b < 25) s) students)
       (count_where (\<lambda>s. has_valid_bmi s \<and> bmi_in (\<lambda>b. 16 \<le> b \<and> b < 18.5) s) students)
       (count_where (\<lambda>s. has_valid_bmi s \<and> bmi_in (\<lambda>b. b < 16) s) students)
       (count_where (\<lambda>s. has_valid_bmi s \<and> bmi_in (\<lambda>b. 25 \<le> b \<and> b < 30) s) students)
       (count_where (\<lambda>s. has_valid_bmi s \<and> bmi_in (\<lambda>b. 30 \<le> b) s) students))"
proof (cases "students = []")
  case True
  then show ?thesis by (simp add: calculate_accurate_bmi_distribution_def)
next
  case False
  have "\<forall>s\<in>set (filter has_valid_bmi students). has_valid_bmi s" by simp
  from accurate_loop [OF this, of 0 0 0 0 0] False show ?thesis
    by (simp add: calculate_accurate_bmi_distribution_def count_where_filter)
qed

lemma student_step_dist4:
  "has_valid_bmi s \<Longrightarrow>
   student_step s (dist4 n w sw ow) =
     Inr (dist4 (n + count_where (bmi_in (\<lambda>b. 18.5 \<le> b \<and> b < 25)) [s])
                (w + count_where (bmi_in (\<lambda>b. 16 \<le> b \<and> b < 18.5)) [s])
                (sw + count_where (bmi_in (\<lambda>b. b < 16)) [s])
                (ow + count_where (bmi_in (\<lambda>b. 25 \<le> b)) [s]))"
  by (auto simp: has_valid_bmi_def student_step_def incr_dist4 bmi_in_def count_where_single
           split: option.splits)

lemma student_loop:
  "\<forall>s\<in>set xs. has_valid_bmi s \<Longrightarrow>
   for_each student_step xs (dist4 n w sw ow) =
     Inr (dist4 (n + count_where (bmi_in (\<lambda>b. 18.5 \<le> b \<and> b < 25)) xs)
                (w + count_where (bmi_in (\<lambda>b. 16 \<le> b \<and> b < 18.5)) xs)
                (sw + count_where (bmi_in (\<lambda>b. b < 16)) xs)
                (ow + count_where (bmi_in (\<lambda>b. 25 \<le> b)) xs))"
proof (induction xs arbitrary: n w sw ow)
  case Nil
  then show ?case by simp
next
  case (Cons s xs)
  from Cons.prems have v: "has_valid_bmi s" and rest: "\<forall>s\<in>set xs. has_valid_bmi s"
    by simp_all
  show ?case
    unfolding for_each.simps student_step_dist4 [OF v] sum.case Cons.IH [OF rest]
    by (simp only: count_where_Cons [of _ s xs] add.assoc)
qed

lemma student_closed:
  "calculate_student_bmi_distribution students =
     Inr (dist4
       (count_where (\<lambda>s. has_valid_bmi s \<and> bmi_in (\<lambda>b. 18.5 \<le> b \<and> b < 25) s) students)
       (count_where (\<lambda>s. has_valid_bmi s \<and> bmi_in (\<lambda>b. 16 \<le> b \<and> b < 18.5) s) students)
       (count_where (\<lambda>s. has_valid_bmi s \<and> bmi_in (\<lambda>b. b < 16) s) students)
       (count_where (\<lambda>s. has_valid_bmi s \<and> bmi_in (\<lambda>b. 25 \<le> b) s) students))"
proof (cases "students = []")
  case True
  then show ?thesis by (simp add: calculate_student_bmi_distribution_def)
next
  case False
  have "\<forall>s\<in>set (filter has_valid_bmi students). has_valid_bmi s" by simp
  from student_loop [OF this, of 0 0 0 0] False show ?thesis
    by (simp add: calculate_student_bmi_distribution_def count_where_filter)
qed

lemma system_step_dist6:
  "bmi_not_null s \<Longrightarrow>
   system_step s (dist6 uw n ow ob sw w) =
     Inr (dist6 uw
                (n + count_where (bmi_in (\<lambda>b. 18.5 \<le> b \<and> b < 25)) [s])
                (ow + count_where (bmi_in (\<lambda>b. 25 \<le> b \<and> b < 30)) [s])
                (ob + count_where (bmi_in (\<lambda>b. 30 \<le> b)) [s])
                (sw + count_where (bmi_in (\<lambda>b. b < 16)) [s])
                (w + count_where (bmi_in (\<lambda>b. 16 \<le> b \<and> b < 18.5)) [s]))"
  by (auto simp: bmi_not_null_def system_step_def incr_dist6 bmi_in_def count_where_single
           split: option.splits)

lemma system_loop:
  "\<forall>s\<in>set xs. bmi_not_null s \<Longrightarrow>
   for_each system_step xs (dist6 uw n ow ob sw w) =
     Inr (dist6 uw
                (n + count_where (bmi_in (\<lambda>b. 18.5 \<le> b \<and> b < 25)) xs)
                (ow + count_where (bmi_in (\<lambda>b. 25 \<le> b \<and> b < 30)) xs)
                (ob + count_where (bmi_in (\<lambda>b. 30 \<le> b)) xs)
                (sw + count_where (bmi_in (\<lambda>b. b < 16)) xs)
                (w + count_where (bmi_in (\<lambda>b. 16 \<le> b \<and> b < 18.5)) xs))"
proof (induction xs arbitrary: n ow ob sw w)
  case Nil
  then show ?case by simp
next
  case (Cons s xs)
  from Cons.prems have v: "bmi_not_null s" and rest: "\<forall>s\<in>set xs. bmi_not_null s"
    by simp_all
  show ?case
    unfolding for_each.simps system_step_dist6 [OF v] sum.case Cons.IH [OF rest]
    by (simp only: count_where_Cons [of _ s xs] add.assoc)
qed

lemma system_closed:
  "system_bmi_distribution students =
     Inr (dist6 0
       (count_where (\<lambda>s. bmi_not_null s \<and> bmi_in (\<lambda>b. 18.5 \<le> b \<and> b < 25) s) students)
       (count_where (\<lambda>s. bmi_not_null s \<and> bmi_in (\<lambda>b. 25 \<le> b \<and> b < 30) s) students)
       (count_where (\<lambda>s. bmi_not_null s \<and> bmi_in (\<lambda>b. 30 \<le> b) s) students)
       (count_where (\<lambda>s. bmi_not_null s \<and> bmi_in (\<lambda>b. b < 16) s) students)
       (count_where (\<lambda>s. bmi_not_null s \<and> bmi_in (\<lambda>b. 16 \<le> b \<and> b < 18.5) s) students))"
proof -
  have "\<forall>s\<in>set (filter bmi_not_null students). bmi_not_null s" by simp
  from system_loop [OF this, of 0 0 0 0 0 0] show ?thesis
    by (simp add: system_bmi_distribution_def count_where_filter)
qed

lemma dashboard_step_dist7:
  "bmi_not_null s \<Longrightarrow>
   dashboard_step s (dist7 n uw ow ob su sw w) =
     Inr (dist7 (n + count_where (bmi_in (\<lambda>b. 18.5 \<le> b \<and> b < 25)) [s])
                (uw + count_where (bmi_in (\<lambda>b. 16 \<le> b \<and> b < 18.5)) [s])
                (ow + count_where (bmi_in (\<lambda>b. 25 \<le> b \<and> b < 30)) [s])
                (ob + count_where (bmi_in (\<lambda>b. 30 \<le> b)) [s])
                (su + count_where (bmi_in (\<lambda>b. b < 16)) [s])
                (sw + count_where (bmi_in (\<lambda>b. b < 16)) [s])
                (w + count_where (bmi_in (\<lambda>b. 16 \<le> b \<and> b < 18.5)) [s]))"
  by (auto simp: bmi_not_null_def dashboard_step_def incr_dist7 bmi_in_def count_where_single
           split: option.splits)

lemma dashboard_loop:
  "\<forall>s\<in>set xs. bmi_not_null s \<Longrightarrow>
   for_each dashboard_step xs (dist7 n uw ow ob su sw w) =
     Inr (dist7 (n + count_where (bmi_in (\<lambda>b. 18.5 \<le> b \<and> b < 25)) xs)
                (uw + count_where (bmi_in (\<lambda>b. 16 \<le> b \<and> b < 18.5)) xs)
                (ow + count_where (bmi_in (\<lambda>b. 25 \<le> b \<and> b < 30)) xs)
                (ob + count_where (bmi_in (\<lambda>b. 30 \<le> b)) xs)
                (su + count_where (bmi_in (\<lambda>b. b < 16)) xs)
                (sw + count_where (bmi_in (\<lambda>b. b < 16)) xs)
                (w + count_where (bmi_in (\<lambda>b. 16 \<le> b \<and> b < 18.5)) xs))"
proof (induction xs arbitrary: n uw ow ob su sw w)
  case Nil
  then show ?case by simp
next
  case (Cons s xs)
  from Cons.prems have v: "bmi_not_null s" and rest: "\<forall>s\<in>set xs. bmi_not_null s"
    by simp_all
  show ?case
    unfolding for_each.simps dashboard_step_dist7 [OF v] sum.case Cons.IH [OF rest]
    by (simp only: count_where_Cons [of _ s xs] add.assoc)
qed

lemma dashboard_closed:
  "dashboard_bmi_distribution students =
     Inr (dist7
       (count_where (\<lambda>s. bmi_not_null s \<and> bmi_in (\<lambda>b. 18.5 \<le> b \<and> b < 25) s) students)
       (count_where (\<lambda>s. bmi_not_null s \<and> bmi_in (\<lambda>b. 16 \<le> b \<and> b < 18.5) s) students)
       (count_where (\<lambda>s. bmi_not_null s \<and> bmi_in (\<lambda>b. 25 \<le> b \<and> b < 30) s) students)
       (count_where (\<lambda>s. bmi_not_null s \<and> bmi_in (\<lambda>b. 30 \<le> b) s) students)
       (count_where (\<lambda>s. bmi_not_null s \<and> bmi_in (\<lambda>b. b < 16) s) students)
       (count_where (\<lambda>s. bmi_not_null s \<and> bmi_in (\<lambda>b. b < 16) s) students)
       (count_where (\<lambda>s. bmi_not_null s \<and> bmi_in (\<lambda>b. 16 \<le> b \<and> b < 18.5) s) students))"
proof -
  have "\<forall>s\<in>set (filter bmi_not_null students). bmi_not_null s" by simp
  from dashboard_loop [OF this, of 0 0 0 0 0 0 0] show ?thesis
    by (simp add: dashboard_bmi_distribution_def count_where_filter)
qed

lemma range_partition:
  "count_where (\<lambda>s. q s \<and> bmi_in (\<lambda>b. 18.5 \<le> b \<and> b < 25) s) xs
   + count_where (\<lambda>s. q s \<and> bmi_in (\<lambda>b. 16 \<le> b \<and> b < 18.5) s) xs
   + count_where (\<lambda>s. q s \<and> bmi_in (\<lambda>b. b < 16) s) xs
   + count_where (\<lambda>s. q s \<and> bmi_in (\<lambda>b. 25 \<le> b \<and> b < 30) s) xs
   + count_where (\<lambda>s. q s \<and> bmi_in (\<lambda>b. 30 \<le> b) s) xs
   = count_where (\<lambda>s. q s \<and> bmi_not_null s) xs"
proof (induction xs)
  case Nil
  show ?case by simp
next
  case (Cons s xs)
  have one: "count_where (\<lambda>s. q s \<and> bmi_in (\<lambda>b. 18.5 \<le> b \<and> b < 25) s) [s]
   + count_where (\<lambda>s. q s \<and> bmi_in (\<lambda>b. 16 \<le> b \<and> b < 18.5) s) [s]
   + count_where (\<lambda>s. q s \<and> bmi_in (\<lambda>b. b < 16) s) [s]
   + count_where (\<lambda>s. q s \<and> bmi_in (\<lambda>b. 25 \<le> b \<and> b < 30) s) [s]
   + count_where (\<lambda>s. q s \<and> bmi_in (\<lambda>b. 30 \<le> b) s) [s]
   = count_where (\<lambda>s. q s \<and> bmi_not_null s) [s]"
    by (cases "bmi s") (auto simp: count_where_single bmi_in_def bmi_not_null_def)
  show ?case
    using one Cons.IH by (simp only: count_where_Cons [of _ s xs])
qed

text \<open>
  The five category counts add up to the number of records the loop visits: the records
  with a bmi above 0 for \<^verbatim>\<open>_calculate_accurate_bmi_distribution\<close>, whose summary is that
  of these records alone, and the records whose bmi is present for the two dashboard
  loops.
\<close>

lemma category_counts_sum:
  "(\<exists>d. calculate_accurate_bmi_distribution students = Inr d \<and>
        category_total d =
          int (length (filter (\<lambda>s. case bmi s of None \<Rightarrow> False | Some b \<Rightarrow> 0 < b) students)))
   \<and> calculate_accurate_bmi_distribution (filter has_valid_bmi students) =
       calculate_accurate_bmi_distribution students
   \<and> (\<exists>d. system_bmi_distribution students = Inr d \<and>
          category_total d = int (length (filter (\<lambda>s. bmi s \<noteq> None) students)))
   \<and> (\<exists>d. dashboard_bmi_distribution students = Inr d \<and>
          category_total d = int (length (filter (\<lambda>s. bmi s \<noteq> None) students)))"
proof -
  have valid_present: "(\<lambda>s. has_valid_bmi s \<and> bmi_not_null s) = has_valid_bmi"
    by (auto simp: has_valid_bmi_def bmi_not_null_def split: option.splits)
  have a: "category_total (dist5
       (count_where (\<lambda>s. has_valid_bmi s \<and> bmi_in (\<lambda>b. 18.5 \<le> b \<and> b < 25) s) students)
       (count_where (\<lambda>s. has_valid_bmi s \<and> bmi_in (\<lambda>b. 16 \<le> b \<and> b < 18.5) s) students)
       (count_where (\<lambda>s. has_valid_bmi s \<and> bmi_in (\<lambda>b. b < 16) s) students)
       (count_where (\<lambda>s. has_valid_bmi s \<and> bmi_in (\<lambda>b. 25 \<le> b \<and> b < 30) s) students)
       (count_where (\<lambda>s. has_valid_bmi s \<and> bmi_in (\<lambda>b. 30 \<le> b) s) students))
     = count_where has_valid_bmi students"
    unfolding category_total_dist5
    using range_partition [of has_valid_bmi students] by (simp only: valid_present)
  have pres: "(\<lambda>s. bmi_not_null s \<and> bmi_not_null s) = (\<lambda>s. bmi s \<noteq> None)"
    by (simp add: bmi_not_null_def)
  have b: "category_total (dist6 0
       (count_where (\<lambda>s. bmi_not_null s \<and> bmi_in (\<lambda>b. 18.5 \<le> b \<and> b < 25) s) students)
       (count_where (\<lambda>s. bmi_not_null s \<and> bmi_in (\<lambda>b. 25 \<le> b \<and> b < 30) s) students)
       (count_where (\<lambda>s. bmi_not_null s \<and> bmi_in (\<lambda>b. 30 \<le> b) s) students)
       (count_where (\<lambda>s. bmi_not_null s \<and> bmi_in (\<lambda>b. b < 16) s) students)
       (count_where (\<lambda>s. bmi_not_null s \<and> bmi_in (\<lambda>b. 16 \<le> b \<and> b < 18.5) s) students))
     = count_where (\<lambda>s. bmi s \<noteq> None) students"
    unfolding category_total_dist6
    using range_partition [of bmi_not_null students] by (simp only: pres)
  have c: "category_total (dist7
       (count_where (\<lambda>s. bmi_not_null s \<and> bmi_in (\<lambda>b. 18.5 \<le> b \<and> b < 25) s) students)
       (count_where (\<lambda>s. bmi_not_null s \<and> bmi_in (\<lambda>b. 16 \<le> b \<and> b < 18.5) s) students)
       (count_where (\<lambda>s. bmi_not_null s \<and> bmi_in (\<lambda>b. 25 \<le> b \<and> b < 30) s) students)
       (count_where (\<lambda>s. bmi_not_null s \<and> bmi_in (\<lambda>b. 30 \<le> b) s) students)
       (count_where (\<lambda>s. bmi_not_null s \<and> bmi_in (\<lambda>b. b < 16) s) students)
       (count_where (\<lambda>s. bmi_not_null s \<and> bmi_in (\<lambda>b. b < 16) s) students)
       (count_where (\<lambda>s. bmi_not_null s \<and> bmi_in (\<lambda>b. 16 \<le> b \<and> b < 18.5) s) students))
     = count_where (\<lambda>s. bmi s \<noteq> None) students"
    unfolding category_total_dist7
    using range_partition [of bmi_not_null students] by (simp only: pres)
  have valid_eq: "has_valid_bmi = (\<lambda>s. case bmi s of None \<Rightarrow> False | Some b \<Rightarrow> 0 < b)"
    by (simp add: has_valid_bmi_def fun_eq_iff)
  have d: "calculate_accurate_bmi_distribution (filter has_valid_bmi students) =
       calculate_accurate_bmi_distribution students"
    by (simp add: accurate_closed count_where_filter)
  show ?thesis
    using a b c d
    by (simp add: accurate_closed system_closed dashboard_closed count_where_def
             flip: valid_eq)
qed

subsection \<open>The monthly loops, the rates and the keys\<close>

lemma upd_dist6:
  "(dist6 uw n ow ob sw w)(''normal'' \<mapsto> v) = dist6 uw v ow ob sw w"
  "(dist6 uw n ow ob sw w)(''wasted'' \<mapsto> v) = dist6 uw n ow ob sw v"
  "(dist6 uw n ow ob sw w)(''severely_wasted'' \<mapsto> v) = dist6 uw n ow ob v w"
  "(dist6 uw n ow ob sw w)(''overweight'' \<mapsto> v) = dist6 uw n v ob sw w"
  "(dist6 uw n ow ob sw w)(''obese'' \<mapsto> v) = dist6 uw n ow v sw w"
  by (simp_all add: dist6_def fun_eq_iff)

lemma dist5_keys:
  assumes "0 \<le> n" "0 \<le> w" "0 \<le> sw" "0 \<le> ow" "0 \<le> ob"
  shows "dom (dist5 n w sw ow ob) =
           {''severely_wasted'', ''wasted'', ''normal'', ''overweight'', ''obese''}"
    and "\<forall>k\<in>dom (dist5 n w sw ow ob). \<exists>v. dist5 n w sw ow ob k = Some v \<and> 0 \<le> v"
  using assms by (auto simp: dist5_def)

lemma dist4_keys:
  assumes "0 \<le> n" "0 \<le> w" "0 \<le> sw" "0 \<le> ow"
  shows "dom (dist4 n w sw ow) = {''severely_wasted'', ''wasted'', ''normal'', ''overweight''}"
    and "\<forall>k\<in>dom (dist4 n w sw ow). \<exists>v. dist4 n w sw ow k = Some v \<and> 0 \<le> v"
  using assms by (auto simp: dist4_def)

lemma comprehension_total:
  "\<forall>s\<in>set xs. bmi s \<noteq> None \<Longrightarrow>
   comprehension (on_bmi p) xs = Inr (filter (bmi_in p) xs)"
  by (induction xs) (auto simp: on_bmi_def bmi_in_def split: option.splits)

lemma comprehension_raises:
  "s \<in> set xs \<Longrightarrow> bmi s = None \<Longrightarrow> comprehension (on_bmi p) xs = Inl TypeError"
  by (induction xs) (auto simp: on_bmi_def split: option.splits)

lemma beneficiary_coverage_value:
  "beneficiary_coverage fl students =
     Inr (if students = [] then 0
          else fmul fl (fdiv fl (of_nat (length (filter is_beneficiary students)))
                          (of_nat (length students))) 100)"
proof (cases "students = []")
  case True
  then show ?thesis by (simp add: beneficiary_coverage_def)
next
  case False
  then have "0 < length students" by simp
  then have m: "max (int (length students)) 1 = int (length students)" by linarith
  from False show ?thesis
    unfolding beneficiary_coverage_def Let_def m
    by (simp add: py_div_def count_where_def)
qed

lemma data_completeness_rate_value:
  "data_completeness_rate fl students =
     Inr (if students = [] then 0
          else fmul fl (fdiv fl (of_nat (length (filter (\<lambda>s. truthy (bmi s)) students)))
                          (of_nat (length students))) 100)"
  by (simp add: data_completeness_rate_def py_div_def count_where_def)

lemma improvement_rate_of_value:
  "improvement_rate_of fl students =
     Inr (if filter is_beneficiary students = [] then 0
          else fmul fl
                 (fdiv fl (of_nat (length (filter (\<lambda>s. truthy (bmi s) \<and>
                                bmi_in (\<lambda>b. 18.5 \<le> b \<and> b < 25) s \<and> is_beneficiary s) students)))
                    (of_nat (length (filter is_beneficiary students)))) 100)"
  by (simp add: improvement_rate_of_def py_div_def count_where_def Let_def)

lemma school_metrics_total:
  "\<exists>entry. school_metrics fl school_name students = Inr entry \<and>
         (students = [] \<longrightarrow> performance_score entry = 0 \<and> data_completeness entry = 0 \<and>
                               improvement_rate entry = 0)"
  unfolding school_metrics_def data_completeness_rate_value improvement_rate_of_value
  by (simp add: round1_def)

lemma school_loop:
  "\<exists>entries.
     for_each (\<lambda>(school_name, students) school_performance.
                 bind (school_metrics fl school_name students)
                   (\<lambda>entry. Inr (school_performance @ [entry]))) schools acc = Inr entries \<and>
     length entries = length acc + length schools"
proof (induction schools arbitrary: acc)
  case Nil
  show ?case by simp
next
  case (Cons school schools)
  obtain school_name students where s: "school = (school_name, students)"
    by (cases school)
  from school_metrics_total obtain entry
    where e: "school_metrics fl school_name students = Inr entry" by blast
  from Cons.IH [where acc = "acc @ [entry]"] show ?case
    by (simp add: s e)
qed

lemma school_performance_total:
  "\<exists>entries. calculate_school_performance fl (Inr schools) = Inr entries \<and>
             length entries = length schools"
proof -
  from school_loop [where schools = schools and acc = "[]"] obtain entries
    where "for_each (\<lambda>(school_name, students) school_performance.
                 bind (school_metrics fl school_name students)
                   (\<lambda>entry. Inr (school_performance @ [entry]))) schools [] = Inr entries"
      and "length entries = length schools"
    by auto
  then show ?thesis
    by (simp add: calculate_school_performance_def)
qed

lemma try_except_default: "\<exists>r. try_except m (\<lambda>e. Inr d) = Inr r"
  by (cases m) simp_all

lemma yielded_bmis_total:
  "\<forall>s\<in>set xs. bmi s \<noteq> None \<Longrightarrow>
   yielded_bmis xs = Inr (map (\<lambda>s. case bmi s of None \<Rightarrow> 0 | Some b \<Rightarrow> b) xs)"
  by (induction xs) auto

lemma sum_bmi_total:
  "\<forall>s\<in>set xs. bmi s \<noteq> None \<Longrightarrow>
   sum_bmi fl xs = Inr (fsum fl (map (\<lambda>s. case bmi s of None \<Rightarrow> 0 | Some b \<Rightarrow> b) xs))"
  by (simp add: sum_bmi_def yielded_bmis_total)

lemma average_bmi_total:
  "xs \<noteq> [] \<Longrightarrow> \<forall>s\<in>set xs. bmi s \<noteq> None \<Longrightarrow> average_bmi fl xs = Inr (mean_bmi fl xs)"
  by (simp add: average_bmi_def sum_bmi_total py_div_def mean_bmi_def)

lemma valid_not_None: "has_valid_bmi s \<Longrightarrow> bmi s \<noteq> None"
  by (cases "bmi s") (simp_all add: has_valid_bmi_def)

lemma truthy_not_None: "truthy (bmi s) \<Longrightarrow> bmi s \<noteq> None"
  by (cases "bmi s") (simp_all add: truthy_def)

lemma py_index_in_range:
  "0 \<le> i \<Longrightarrow> i < int (length xs) \<Longrightarrow> py_index xs i = Inr (xs ! nat i)"
  by (simp add: py_index_def)

lemma improved_step_value:
  assumes "1 \<le> month (month_date_of i)" and "month (month_date_of i) \<le> 12"
  shows "improved_step fl month_date_of students i (months, bmi_values) =
           Inr (month_abbr ! nat (month (month_date_of i)) # months,
                improved_value fl month_date_of students i # bmi_values)"
proof -
  have idx: "py_index month_abbr (month (month_date_of i)) =
      Inr (month_abbr ! nat (month (month_date_of i)))"
    using assms by (intro py_index_in_range) (simp_all add: month_abbr_def)
  have a1: "average_bmi fl (filter (\<lambda>s. has_valid_bmi s \<and> created_in (month_date_of i) s) students) =
      Inr (mean_bmi fl (filter (\<lambda>s. has_valid_bmi s \<and> created_in (month_date_of i) s) students))"
    if "filter (\<lambda>s. has_valid_bmi s \<and> created_in (month_date_of i) s) students \<noteq> []"
    using that by (intro average_bmi_total) (auto dest: valid_not_None)
  have a2: "average_bmi fl (filter has_valid_bmi students) =
      Inr (mean_bmi fl (filter has_valid_bmi students))"
    if "filter has_valid_bmi students \<noteq> []"
    using that by (intro average_bmi_total) (auto dest: valid_not_None)
  show ?thesis
    unfolding improved_step_def improved_value_def prod.case Let_def idx bind_Inr
    using a1 a2 by (cases "filter (\<lambda>s. has_valid_bmi s \<and> created_in (month_date_of i) s) students = []";
                    cases "filter has_valid_bmi students = []") simp_all
qed

lemma improved_loop:
  "\<forall>i\<in>set is. 1 \<le> month (month_date_of i) \<and> month (month_date_of i) \<le> 12 \<Longrightarrow>
   for_each (improved_step fl month_date_of students) is (months, bmi_values) =
     Inr (rev (map (\<lambda>i. month_abbr ! nat (month (month_date_of i))) is) @ months,
          rev (map (improved_value fl month_date_of students) is) @ bmi_values)"
proof (induction "is" arbitrary: months bmi_values)
  case Nil
  then show ?case by simp
next
  case (Cons i "is")
  then show ?case by (simp add: improved_step_value)
qed

lemma improved_closed:
  assumes "\<forall>i<6. 1 \<le> month (month_date_of i) \<and> month (month_date_of i) \<le> 12"
  shows "calculate_improved_bmi_progress fl month_date_of students =
     Inr \<lparr>chart_labels = rev (map (\<lambda>i. month_abbr ! nat (month (month_date_of i)))
                                 [0, 1, 2, 3, 4, 5]),
          chart_values = rev (map (improved_value fl month_date_of students) [0, 1, 2, 3, 4, 5])\<rparr>"
proof -
  have "\<forall>i\<in>set [0, 1, 2, 3, 4, 5 :: nat].
          1 \<le> month (month_date_of i) \<and> month (month_date_of i) \<le> 12"
    using assms by simp
  from improved_loop [OF this, where students = students and months = "[]"
                        and bmi_values = "[]"]
  show ?thesis
    unfolding calculate_improved_bmi_progress_def by simp
qed

lemma healthy_percentage_total:
  "xs \<noteq> [] \<Longrightarrow> \<forall>s\<in>set xs. bmi s \<noteq> None \<Longrightarrow> healthy_percentage fl xs = Inr (healthy_share fl xs)"
  by (simp add: healthy_percentage_def comprehension_total py_div_def healthy_share_def)

lemma system_average_value:
  "system_average fl (Inr rows) =
     Inr (if filter bmi_not_null rows \<noteq> [] then healthy_share fl (filter bmi_not_null rows) else 0)"
proof -
  have "healthy_percentage fl (filter bmi_not_null rows) = Inr (healthy_share fl (filter bmi_not_null rows))"
    if "filter bmi_not_null rows \<noteq> []"
    using that by (intro healthy_percentage_total) (auto simp: bmi_not_null_def)
  then show ?thesis
    by (simp add: system_average_def query_all_def)
qed

lemma monthly_step_value:
  assumes "1 \<le> m" and "m \<le> 12"
  shows "monthly_step fl (Inr rows) m (months_labels, months_data) =
           Inr (months_labels @ [take 3 (month_name ! nat m)],
                months_data @ [monthly_value fl rows m])"
proof -
  have idx: "py_index month_name m = Inr (month_name ! nat m)"
    using assms by (intro py_index_in_range) (simp_all add: month_name_def)
  have h: "healthy_percentage fl (filter (\<lambda>s. truthy (bmi s)) xs) =
             Inr (healthy_share fl (filter (\<lambda>s. truthy (bmi s)) xs))"
    if "filter (\<lambda>s. truthy (bmi s)) xs \<noteq> []" for xs
    using that by (intro healthy_percentage_total) (auto dest: truthy_not_None)
  show ?thesis
    unfolding monthly_step_def monthly_value_def prod.case Let_def idx bind_Inr query_all_def
      system_average_value
    by (simp add: h del: filter_filter)
qed

lemma monthly_loop:
  "\<forall>m\<in>set ms. 1 \<le> m \<and> m \<le> 12 \<Longrightarrow>
   for_each (monthly_step fl (Inr rows)) ms (months_labels, months_data) =
     Inr (months_labels @ map (\<lambda>m. take 3 (month_name ! nat m)) ms,
          months_data @ map (monthly_value fl rows) ms)"
proof (induction ms arbitrary: months_labels months_data)
  case Nil
  then show ?case by simp
next
  case (Cons m ms)
  then show ?case by (simp add: monthly_step_value)
qed

lemma monthly_closed:
  "calculate_monthly_progress_trends fl (Inr rows) =
     Inr \<lparr>chart_labels = map (\<lambda>m. take 3 (month_name ! nat m))
                            [1, 2, 3, 4, 5, 6, 7, 8, 9, 10, 11, 12],
          chart_values = map (monthly_value fl rows) [1, 2, 3, 4, 5, 6, 7, 8, 9, 10, 11, 12]\<rparr>"
proof -
  have "\<forall>m\<in>set [1, 2, 3, 4, 5, 6, 7, 8, 9, 10, 11, 12 :: int]. 1 \<le> m \<and> m \<le> 12"
    by simp
  from monthly_loop [OF this, where rows = rows and months_labels = "[]"
                       and months_data = "[]"]
  show ?thesis
    unfolding calculate_monthly_progress_trends_def by simp
qed

lemma round1_zero: "round1 fl 0 = 0"
  by (simp add: round1_def)

section \<open>The claims\<close>

subsection \<open>C1: the thresholds of the classifier\<close>

text \<open>
  C1. For a bmi above 0 the category follows the half-open ranges with inclusive lower
  bounds: below 16 severely wasted, from 16 below 18.5 wasted, from 18.5 below 25 normal,
  from 25 below 30 overweight, from 30 obese. The category a loop assigns to a record is
  the counter it raises, so the statement is about the summary of the one-record list:
  for \<^verbatim>\<open>_calculate_accurate_bmi_distribution\<close> it is all zero but for a 1 at the
  category's key, and the loop of \<^verbatim>\<open>dashboard\<close> (super_admin.py) raises the same key
  (and, for the two lowest ranges, its older synonym as well).
\<close>

theorem bmi_classifier_thresholds:
  assumes "0 < b" and "bmi s = Some b"
  shows "(b < 16 \<longrightarrow>
            calculate_accurate_bmi_distribution [s] =
              Inr ((dist5 0 0 0 0 0)(''severely_wasted'' \<mapsto> 1)) \<and>
            dashboard_bmi_distribution [s] =
              Inr ((dist7 0 0 0 0 0 0 0)(''severely_underweight'' \<mapsto> 1,
                                         ''severely_wasted'' \<mapsto> 1)))
       \<and> (16 \<le> b \<and> b < 18.5 \<longrightarrow>
            calculate_accurate_bmi_distribution [s] =
              Inr ((dist5 0 0 0 0 0)(''wasted'' \<mapsto> 1)) \<and>
            dashboard_bmi_distribution [s] =
              Inr ((dist7 0 0 0 0 0 0 0)(''underweight'' \<mapsto> 1, ''wasted'' \<mapsto> 1)))
       \<and> (18.5 \<le> b \<and> b < 25 \<longrightarrow>
            calculate_accurate_bmi_distribution [s] =
              Inr ((dist5 0 0 0 0 0)(''normal'' \<mapsto> 1)) \<and>
            dashboard_bmi_distribution [s] =
              Inr ((dist7 0 0 0 0 0 0 0)(''normal'' \<mapsto> 1)))
       \<and> (25 \<le> b \<and> b < 30 \<longrightarrow>
            calculate_accurate_bmi_distribution [s] =
              Inr ((dist5 0 0 0 0 0)(''overweight'' \<mapsto> 1)) \<and>
            dashboard_bmi_distribution [s] =
              Inr ((dist7 0 0 0 0 0 0 0)(''overweight'' \<mapsto> 1)))
       \<and> (30 \<le> b \<longrightarrow>
            calculate_accurate_bmi_distribution [s] =
              Inr ((dist5 0 0 0 0 0)(''obese'' \<mapsto> 1)) \<and>
            dashboard_bmi_distribution [s] =
              Inr ((dist7 0 0 0 0 0 0 0)(''obese'' \<mapsto> 1)))"
proof -
  have valid: "has_valid_bmi s" and present: "bmi_not_null s"
    using assms by (simp_all add: has_valid_bmi_def bmi_not_null_def)
  show ?thesis
    using assms valid present
    by (simp add: accurate_closed dashboard_closed count_where_single bmi_in_def
                  upd_dist5 upd_dist7)
qed

text \<open>The boundary values: 16 is wasted, 25 is overweight, 30 is obese.\<close>

theorem bmi_classifier_thresholds_witness:
  "calculate_accurate_bmi_distribution [row (Some 16) False] =
     Inr ((dist5 0 0 0 0 0)(''wasted'' \<mapsto> 1)) \<and>
   calculate_accurate_bmi_distribution [row (Some 25) False] =
     Inr ((dist5 0 0 0 0 0)(''overweight'' \<mapsto> 1)) \<and>
   calculate_accurate_bmi_distribution [row (Some 30) False] =
     Inr ((dist5 0 0 0 0 0)(''obese'' \<mapsto> 1)) \<and>
   dashboard_bmi_distribution [row (Some 30) False] =
     Inr ((dist7 0 0 0 0 0 0 0)(''obese'' \<mapsto> 1))"
  using bmi_classifier_thresholds [of 16 "row (Some 16) False"]
        bmi_classifier_thresholds [of 25 "row (Some 25) False"]
        bmi_classifier_thresholds [of 30 "row (Some 30) False"]
  by (simp add: row_def)

subsection \<open>C2: the counts add up to the records counted\<close>

text \<open>
  C2. The sum of the five category counts is the number of records whose bmi is present
  and above 0, and a record with no bmi, a bmi of 0 or a negative bmi is counted in no
  category. \<^verbatim>\<open>_calculate_accurate_bmi_distribution\<close> does that (it keeps the records with
  \<^verbatim>\<open>s.bmi is not None and s.bmi > 0\<close>, as \<^verbatim>\<open>_calculate_student_bmi_distribution\<close> and
  \<^verbatim>\<open>_get_at_risk_students\<close> do). The loops of \<^verbatim>\<open>_get_super_admin_dashboard_data\<close> and
  of \<^verbatim>\<open>dashboard\<close> lack the test for a bmi above 0. At a row with a bmi of -10 (the
  handlers of super_admin.py store \<^verbatim>\<open>round(weight / height_m ** 2, 2)\<close> for any weight
  that is not zero) both of them count the row as severely wasted: their counts add up
  to 1 while no record has a bmi above 0, and the summary of
  \<^verbatim>\<open>_calculate_accurate_bmi_distribution\<close> for the same row is all zero.
\<close>

theorem invalid_bmi_counted_by_dashboards:
  "system_bmi_distribution [row (Some (- 10)) False] =
     Inr ((dist6 0 0 0 0 0 0)(''severely_wasted'' \<mapsto> 1)) \<and>
   category_total ((dist6 0 0 0 0 0 0)(''severely_wasted'' \<mapsto> 1)) = 1 \<and>
   dashboard_bmi_distribution [row (Some (- 10)) False] =
     Inr ((dist7 0 0 0 0 0 0 0)(''severely_underweight'' \<mapsto> 1, ''severely_wasted'' \<mapsto> 1)) \<and>
   category_total ((dist7 0 0 0 0 0 0 0)(''severely_underweight'' \<mapsto> 1,
                                         ''severely_wasted'' \<mapsto> 1)) = 1 \<and>
   length (filter (\<lambda>s. case bmi s of None \<Rightarrow> False | Some b \<Rightarrow> 0 < b)
             [row (Some (- 10)) False]) = 0 \<and>
   calculate_accurate_bmi_distribution [row (Some (- 10)) False] = Inr (dist5 0 0 0 0 0)"
proof -
  have r: "bmi (row (Some (- 10)) False) = Some (- 10)"
    by (simp add: row_def)
  have "system_bmi_distribution [row (Some (- 10)) False] = Inr (dist6 0 0 0 0 1 0)"
    by (simp add: system_closed count_where_single bmi_in_def bmi_not_null_def r)
  moreover have "dashboard_bmi_distribution [row (Some (- 10)) False] =
      Inr (dist7 0 0 0 0 1 1 0)"
    by (simp add: dashboard_closed count_where_single bmi_in_def bmi_not_null_def r)
  moreover have "calculate_accurate_bmi_distribution [row (Some (- 10)) False] =
      Inr (dist5 0 0 0 0 0)"
    by (simp add: accurate_closed count_where_single has_valid_bmi_def r)
  ultimately show ?thesis
    by (simp add: upd_dist6 upd_dist7 category_total_dist6 category_total_dist7 r)
qed

subsection \<open>C3: the keys of a summary\<close>

text \<open>
  C3, as amended. The summary of \<^verbatim>\<open>_calculate_accurate_bmi_distribution\<close> has the five
  category keys, and the summary of \<^verbatim>\<open>_calculate_student_bmi_distribution\<close>, which the
  school admin's dashboard shows, has the four keys severely wasted, wasted, normal and
  overweight; every key is mapped to an integer that is not negative, also when it is 0.
\<close>

theorem summary_keys:
  "(\<exists>d. calculate_accurate_bmi_distribution students = Inr d \<and>
        dom d = {''severely_wasted'', ''wasted'', ''normal'', ''overweight'', ''obese''} \<and>
        (\<forall>k\<in>dom d. \<exists>n. d k = Some n \<and> 0 \<le> n))
   \<and> (\<exists>d. calculate_student_bmi_distribution students = Inr d \<and>
        dom d = {''severely_wasted'', ''wasted'', ''normal'', ''overweight''} \<and>
        (\<forall>k\<in>dom d. \<exists>n. d k = Some n \<and> 0 \<le> n))"
proof
  have "\<exists>n w sw ow ob. calculate_accurate_bmi_distribution students = Inr (dist5 n w sw ow ob)
          \<and> 0 \<le> n \<and> 0 \<le> w \<and> 0 \<le> sw \<and> 0 \<le> ow \<and> 0 \<le> ob"
    by (intro exI conjI, rule accurate_closed) simp_all
  then obtain n w sw ow ob
    where "calculate_accurate_bmi_distribution students = Inr (dist5 n w sw ow ob)"
      and "0 \<le> n" "0 \<le> w" "0 \<le> sw" "0 \<le> ow" "0 \<le> ob"
    by blast
  then show "\<exists>d. calculate_accurate_bmi_distribution students = Inr d \<and>
        dom d = {''severely_wasted'', ''wasted'', ''normal'', ''overweight'', ''obese''} \<and>
        (\<forall>k\<in>dom d. \<exists>n. d k = Some n \<and> 0 \<le> n)"
    using dist5_keys [of n w sw ow ob] by blast
next
  have "\<exists>n w sw ow. calculate_student_bmi_distribution students = Inr (dist4 n w sw ow)
          \<and> 0 \<le> n \<and> 0 \<le> w \<and> 0 \<le> sw \<and> 0 \<le> ow"
    by (intro exI conjI, rule student_closed) simp_all
  then obtain n w sw ow
    where "calculate_student_bmi_distribution students = Inr (dist4 n w sw ow)"
      and "0 \<le> n" "0 \<le> w" "0 \<le> sw" "0 \<le> ow"
    by blast
  then show "\<exists>d. calculate_student_bmi_distribution students = Inr d \<and>
        dom d = {''severely_wasted'', ''wasted'', ''normal'', ''overweight''} \<and>
        (\<forall>k\<in>dom d. \<exists>n. d k = Some n \<and> 0 \<le> n)"
    using dist4_keys [of n w sw ow] by blast
qed

theorem summary_keys_witness:
  "(\<exists>d. calculate_accurate_bmi_distribution [row (Some 32) False] = Inr d \<and>
        ''obese'' \<in> dom d \<and> (\<exists>n. d ''obese'' = Some n \<and> 0 \<le> n))
   \<and> (\<exists>d. calculate_student_bmi_distribution [row (Some 32) False] = Inr d \<and>
        ''overweight'' \<in> dom d \<and> (\<exists>n. d ''overweight'' = Some n \<and> 0 \<le> n))"
  using summary_keys [of "[row (Some 32) False]"] by fastforce

text \<open>
  Where the claim fails as stated: the summary of \<^verbatim>\<open>_calculate_student_bmi_distribution\<close>
  has no key for obese; a bmi of 32 is counted as overweight.
\<close>

theorem summary_keys_counterexample:
  "calculate_student_bmi_distribution [row (Some 32) False] =
     Inr ((dist4 0 0 0 0)(''overweight'' \<mapsto> 1)) \<and>
   ((dist4 0 0 0 0)(''overweight'' \<mapsto> 1)) ''obese'' = None"
  by (simp add: student_closed count_where_single has_valid_bmi_def bmi_in_def row_def
                dist4_def fun_eq_iff)

subsection \<open>C4: who is at risk\<close>

text \<open>
  C4, as amended. The query of \<^verbatim>\<open>dashboard\<close> (super_admin.py) counts a student as
  at risk exactly when the bmi is present and below 18.5 or at least 25, and its count is
  the number of such students. \<^verbatim>\<open>_get_at_risk_students\<close> has the narrower rule of its
  docstring (severely underweight or obese): it returns exactly the students whose bmi is
  present, above 0, and below 16 or at least 30, so the count of the school admin's
  dashboard is the number of those.
\<close>

theorem at_risk_counts:
  "at_risk_query_count students =
     int (length (filter (\<lambda>s. case bmi s of None \<Rightarrow> False | Some b \<Rightarrow> b < 18.5 \<or> 25 \<le> b)
                    students))
   \<and> (\<exists>rs. get_at_risk_students students = Inr rs \<and>
         mset rs =
           mset (filter (\<lambda>s. case bmi s of None \<Rightarrow> False
                               | Some b \<Rightarrow> 0 < b \<and> (b < 16 \<or> 30 \<le> b)) students) \<and>
         length rs =
           length (filter (\<lambda>s. case bmi s of None \<Rightarrow> False
                                 | Some b \<Rightarrow> 0 < b \<and> (b < 16 \<or> 30 \<le> b)) students))"
proof -
  have q: "(\<lambda>s. bmi_not_null s \<and> bmi_in (\<lambda>b. b < 18.5 \<or> 25 \<le> b) s) =
           (\<lambda>s. case bmi s of None \<Rightarrow> False | Some b \<Rightarrow> b < 18.5 \<or> 25 \<le> b)"
    by (auto simp: fun_eq_iff bmi_not_null_def bmi_in_def split: option.splits)
  have r: "(\<lambda>s. has_valid_bmi s \<and> bmi_in (\<lambda>b. b < 16 \<or> 30 \<le> b) s) =
           (\<lambda>s. case bmi s of None \<Rightarrow> False | Some b \<Rightarrow> 0 < b \<and> (b < 16 \<or> 30 \<le> b))"
    by (auto simp: fun_eq_iff has_valid_bmi_def bmi_in_def split: option.splits)
  have a: "at_risk_query_count students =
     int (length (filter (\<lambda>s. case bmi s of None \<Rightarrow> False | Some b \<Rightarrow> b < 18.5 \<or> 25 \<le> b)
                    students))"
    by (simp only: at_risk_query_count_def count_where_def q)
  have "get_at_risk_students students =
          Inr (sort_key bmi_sort_key
                 (filter (\<lambda>s. has_valid_bmi s \<and> bmi_in (\<lambda>b. b < 16 \<or> 30 \<le> b) s) students))"
    by (simp add: get_at_risk_students_def)
  then have b: "get_at_risk_students students =
          Inr (sort_key bmi_sort_key
                 (filter (\<lambda>s. case bmi s of None \<Rightarrow> False
                               | Some b \<Rightarrow> 0 < b \<and> (b < 16 \<or> 30 \<le> b)) students))"
    by (simp only: r)
  show ?thesis
    unfolding a b by simp
qed

theorem at_risk_counts_witness:
  "at_risk_query_count [row (Some 17) False, row (Some 32) False, row (Some 20) True, row None True] = 2
   \<and> get_at_risk_students [row (Some 17) False, row (Some 32) False, row (Some 20) True, row None True]
       = Inr [row (Some 32) False]"
  using at_risk_counts [of "[row (Some 17) False, row (Some 32) False, row (Some 20) True, row None True]"]
  by (simp add: row_def get_at_risk_students_def has_valid_bmi_def bmi_in_def)

text \<open>
  Where the claim fails as stated: a bmi of 17 is present and below 18.5, and
  \<^verbatim>\<open>_get_at_risk_students\<close> does not return the student.
\<close>

theorem at_risk_counts_counterexample:
  "bmi (row (Some 17) False) = Some 17 \<and> (17 :: rat) < 18.5 \<and>
   get_at_risk_students [row (Some 17) False] = Inr []"
  by (simp add: row_def get_at_risk_students_def has_valid_bmi_def bmi_in_def)

subsection \<open>C5: a month without students\<close>

text \<open>
  C5, as amended. \<^verbatim>\<open>_calculate_improved_bmi_progress\<close>: for each of the six months
  whose bucket holds no student with a valid bmi, the value reported (at the month's
  place, the oldest month first) is the mean bmi of all students with a valid bmi, as
  the float arithmetic gives it (their \<^verbatim>\<open>sum\<close>, divided by their number, then
  \<^verbatim>\<open>round(x, 1)\<close>), and it is the default 18.5 when no student has a valid bmi.
  \<^verbatim>\<open>_calculate_monthly_progress_trends\<close>: for each of the twelve months without
  students, the value reported is the percentage of healthy students among all students
  with a bmi (their number divided by the number of all, times 100, then
  \<^verbatim>\<open>round(x, 1)\<close>), and it is 0 when no student has a bmi. The months of the first
  function come from the datetime library, so they lie between 1 and 12.
\<close>

theorem monthly_fallback:
  "((\<forall>j<6. 1 \<le> month (month_date_of j) \<and> month (month_date_of j) \<le> 12) \<and> i < 6 \<and>
     filter (\<lambda>s. has_valid_bmi s \<and> created_in (month_date_of i) s) students = [] \<longrightarrow>
     (\<exists>c. calculate_improved_bmi_progress fl month_date_of students = Inr c \<and>
          length (chart_values c) = 6 \<and>
          chart_values c ! (5 - i) =
            (if filter has_valid_bmi students = [] then 18.5
             else round1 fl (mean_bmi fl (filter has_valid_bmi students)))))
   \<and> (1 \<le> m \<and> m \<le> 12 \<and> filter (in_month m) rows = [] \<longrightarrow>
     (\<exists>c. calculate_monthly_progress_trends fl (Inr rows) = Inr c \<and>
          length (chart_values c) = 12 \<and>
          chart_values c ! nat (m - 1) =
            (if filter bmi_not_null rows = [] then 0
             else round1 fl (healthy_share fl (filter bmi_not_null rows)))))"
proof (intro conjI impI)
  assume h: "(\<forall>j<6. 1 \<le> month (month_date_of j) \<and> month (month_date_of j) \<le> 12) \<and> i < 6 \<and>
     filter (\<lambda>s. has_valid_bmi s \<and> created_in (month_date_of i) s) students = []"
  then have months: "\<forall>j<6. 1 \<le> month (month_date_of j) \<and> month (month_date_of j) \<le> 12"
    and i: "i < 6"
    and empty: "filter (\<lambda>s. has_valid_bmi s \<and> created_in (month_date_of i) s) students = []"
    by blast+
  have v: "improved_value fl month_date_of students i =
      (if filter has_valid_bmi students = [] then 18.5
       else round1 fl (mean_bmi fl (filter has_valid_bmi students)))"
    unfolding improved_value_def empty by simp
  from i have "i = 0 \<or> i = 1 \<or> i = 2 \<or> i = 3 \<or> i = 4 \<or> i = 5"
    by arith
  then have "rev (map (improved_value fl month_date_of students) [0, 1, 2, 3, 4, 5]) ! (5 - i) =
      improved_value fl month_date_of students i"
    by (elim disjE) simp_all
  then show "\<exists>c. calculate_improved_bmi_progress fl month_date_of students = Inr c \<and>
          length (chart_values c) = 6 \<and>
          chart_values c ! (5 - i) =
            (if filter has_valid_bmi students = [] then 18.5
             else round1 fl (mean_bmi fl (filter has_valid_bmi students)))"
    unfolding improved_closed [OF months] v by simp
next
  assume h: "1 \<le> m \<and> m \<le> 12 \<and> filter (in_month m) rows = []"
  then have m: "1 \<le> m" "m \<le> 12" and empty: "filter (in_month m) rows = []"
    by blast+
  have v: "monthly_value fl rows m =
      (if filter bmi_not_null rows = [] then 0
       else round1 fl (healthy_share fl (filter bmi_not_null rows)))"
    unfolding monthly_value_def empty by (simp add: round1_zero)
  from m have "m = 1 \<or> m = 2 \<or> m = 3 \<or> m = 4 \<or> m = 5 \<or> m = 6 \<or> m = 7 \<or> m = 8 \<or>
      m = 9 \<or> m = 10 \<or> m = 11 \<or> m = 12"
    by arith
  then have "map (monthly_value fl rows) [1, 2, 3, 4, 5, 6, 7, 8, 9, 10, 11, 12] ! nat (m - 1) =
      monthly_value fl rows m"
    by (elim disjE) simp_all
  then show "\<exists>c. calculate_monthly_progress_trends fl (Inr rows) = Inr c \<and>
          length (chart_values c) = 12 \<and>
          chart_values c ! nat (m - 1) =
            (if filter bmi_not_null rows = [] then 0
             else round1 fl (healthy_share fl (filter bmi_not_null rows)))"
    unfolding monthly_closed v by simp
qed

text \<open>
  Two students with bmi 20 and 21 and no dates: the mean is 20.5. Two students with bmi
  20 and 27: half of them are healthy, 50 percent.
\<close>

theorem monthly_fallback_witness:
  "(\<exists>c. calculate_improved_bmi_progress exact_arith (\<lambda>i. \<lparr>year = 2024, month = 6 - int i\<rparr>)
          [row (Some 20) False, row (Some 21) True] = Inr c \<and>
        length (chart_values c) = 6 \<and> chart_values c ! (5 - 2) = 20.5)
   \<and> (\<exists>c. calculate_monthly_progress_trends exact_arith (Inr [row (Some 20) False, row (Some 27) True]) = Inr c \<and>
        length (chart_values c) = 12 \<and> chart_values c ! nat (4 - 1) = 50)"
  using monthly_fallback [where fl = exact_arith and month_date_of = "\<lambda>i. \<lparr>year = 2024, month = 6 - int i\<rparr>"
          and i = 2 and students = "[row (Some 20) False, row (Some 21) True]"
          and m = 4 and rows = "[row (Some 20) False, row (Some 27) True]"]
  by (simp add: row_def created_in_def in_month_def has_valid_bmi_def bmi_not_null_def
                mean_bmi_def healthy_share_def bmi_in_def round1_def exact_arith_def)

text \<open>
  Where the claim fails as stated: with one student and no bmi anywhere,
  \<^verbatim>\<open>_calculate_monthly_progress_trends\<close> reports 0 for every month, not 18.5. No
  float operation is reached on this input.
\<close>

theorem monthly_fallback_counterexample:
  "filter bmi_not_null [row None False] = [] \<and>
   calculate_monthly_progress_trends exact_arith (Inr [row None False]) =
     Inr \<lparr>chart_labels = [''Jan'', ''Feb'', ''Mar'', ''Apr'', ''May'', ''Jun'',
                          ''Jul'', ''Aug'', ''Sep'', ''Oct'', ''Nov'', ''Dec''],
          chart_values = [0, 0, 0, 0, 0, 0, 0, 0, 0, 0, 0, 0]\<rparr>"
proof -
  have "monthly_value exact_arith [row None False] m = 0" for m
    by (simp add: monthly_value_def row_def in_month_def bmi_not_null_def round1_zero)
  then show ?thesis
    unfolding monthly_closed by (simp add: month_name_def bmi_not_null_def row_def)
qed

subsection \<open>C6: the rates and their guards\<close>

text \<open>
  C6. The beneficiary rate of \<^verbatim>\<open>dashboard\<close> (super_admin.py) is the number of
  beneficiaries divided by the number of students, times 100, both operations those of
  the float arithmetic, and it is 0 for no students; the division never raises. The other
  rates have the same guard on their own denominator: the data completeness and the
  improvement rate of \<^verbatim>\<open>_calculate_school_performance\<close> (a school without students has
  score and rates 0, and the function returns one entry for every school), and the
  program compliance of \<^verbatim>\<open>_calculate_progress_trends\<close>, which that function computes
  over students that all have a bmi.
\<close>

theorem rates_zero_guard:
  "beneficiary_coverage fl students =
     Inr (if students = [] then 0
          else fmul fl (fdiv fl (of_nat (length (filter is_beneficiary students)))
                          (of_nat (length students))) 100)
   \<and> data_completeness_rate fl students =
     Inr (if students = [] then 0
          else fmul fl (fdiv fl (of_nat (length (filter (\<lambda>s. truthy (bmi s)) students)))
                          (of_nat (length students))) 100)
   \<and> improvement_rate_of fl students =
     Inr (if filter is_beneficiary students = [] then 0
          else fmul fl
                 (fdiv fl (of_nat (length (filter (\<lambda>s. truthy (bmi s) \<and>
                                bmi_in (\<lambda>b. 18.5 \<le> b \<and> b < 25) s \<and> is_beneficiary s) students)))
                    (of_nat (length (filter is_beneficiary students)))) 100)
   \<and> (\<exists>entry. school_metrics fl school_name students = Inr entry \<and>
         (students = [] \<longrightarrow> performance_score entry = 0 \<and> data_completeness entry = 0 \<and>
                               improvement_rate entry = 0))
   \<and> (\<exists>entries. calculate_school_performance fl (Inr schools) = Inr entries \<and>
         length entries = length schools)
   \<and> ((\<forall>s\<in>set students. bmi s \<noteq> None) \<longrightarrow>
        program_compliance_rate fl students =
          Inr (if filter (bmi_in (\<lambda>b. b < 18.5 \<or> 25 \<le> b)) students = [] then 0
               else round1 fl
                      (fmul fl
                         (fdiv fl (of_nat (length (filter is_beneficiary
                                     (filter (bmi_in (\<lambda>b. b < 18.5 \<or> 25 \<le> b)) students))))
                            (of_nat (length (filter (bmi_in (\<lambda>b. b < 18.5 \<or> 25 \<le> b))
                                               students)))) 100)))"
proof (intro conjI)
  show "beneficiary_coverage fl students =
     Inr (if students = [] then 0
          else fmul fl (fdiv fl (of_nat (length (filter is_beneficiary students)))
                          (of_nat (length students))) 100)"
    by (rule beneficiary_coverage_value)
  show "data_completeness_rate fl students =
     Inr (if students = [] then 0
          else fmul fl (fdiv fl (of_nat (length (filter (\<lambda>s. truthy (bmi s)) students)))
                          (of_nat (length students))) 100)"
    by (rule data_completeness_rate_value)
  show "improvement_rate_of fl students =
     Inr (if filter is_beneficiary students = [] then 0
          else fmul fl
                 (fdiv fl (of_nat (length (filter (\<lambda>s. truthy (bmi s) \<and>
                                bmi_in (\<lambda>b. 18.5 \<le> b \<and> b < 25) s \<and> is_beneficiary s) students)))
                    (of_nat (length (filter is_beneficiary students)))) 100)"
    by (rule improvement_rate_of_value)
  show "\<exists>entry. school_metrics fl school_name students = Inr entry \<and>
         (students = [] \<longrightarrow> performance_score entry = 0 \<and> data_completeness entry = 0 \<and>
                               improvement_rate entry = 0)"
    by (rule school_metrics_total)
  show "\<exists>entries. calculate_school_performance fl (Inr schools) = Inr entries \<and>
         length entries = length schools"
    by (rule school_performance_total)
  show "(\<forall>s\<in>set students. bmi s \<noteq> None) \<longrightarrow>
        program_compliance_rate fl students =
          Inr (if filter (bmi_in (\<lambda>b. b < 18.5 \<or> 25 \<le> b)) students = [] then 0
               else round1 fl
                      (fmul fl
                         (fdiv fl (of_nat (length (filter is_beneficiary
                                     (filter (bmi_in (\<lambda>b. b < 18.5 \<or> 25 \<le> b)) students))))
                            (of_nat (length (filter (bmi_in (\<lambda>b. b < 18.5 \<or> 25 \<le> b))
                                               students)))) 100))"
  proof
    assume "\<forall>s\<in>set students. bmi s \<noteq> None"
    then have c: "comprehension (on_bmi (\<lambda>b. b < 18.5 \<or> 25 \<le> b)) students =
        Inr (filter (bmi_in (\<lambda>b. b < 18.5 \<or> 25 \<le> b)) students)"
      by (rule comprehension_total)
    show "program_compliance_rate fl students =
          Inr (if filter (bmi_in (\<lambda>b. b < 18.5 \<or> 25 \<le> b)) students = [] then 0
               else round1 fl
                      (fmul fl
                         (fdiv fl (of_nat (length (filter is_beneficiary
                                     (filter (bmi_in (\<lambda>b. b < 18.5 \<or> 25 \<le> b)) students))))
                            (of_nat (length (filter (bmi_in (\<lambda>b. b < 18.5 \<or> 25 \<le> b))
                                               students)))) 100))"
      unfolding program_compliance_rate_def c
      by (simp add: py_div_def count_where_def Let_def)
  qed
qed

text \<open>
  Four students, one of them a beneficiary: 25 percent. One of two students at risk is a
  beneficiary: 50 percent.
\<close>

theorem rates_zero_guard_witness:
  "beneficiary_coverage exact_arith [] = Inr 0 \<and>
   beneficiary_coverage exact_arith
     [row (Some 20) True, row (Some 17) False, row (Some 27) False, row None False] = Inr 25 \<and>
   data_completeness_rate exact_arith [row None False, row None False] = Inr 0 \<and>
   program_compliance_rate exact_arith [row (Some 17) True, row (Some 27) False] = Inr 50 \<and>
   program_compliance_rate exact_arith [row (Some 20) True] = Inr 0"
  using rates_zero_guard [where fl = exact_arith and students = "[]"]
        rates_zero_guard [where fl = exact_arith and students =
           "[row (Some 20) True, row (Some 17) False, row (Some 27) False, row None False]"]
        rates_zero_guard [where fl = exact_arith and students = "[row None False, row None False]"]
        rates_zero_guard [where fl = exact_arith and students =
           "[row (Some 17) True, row (Some 27) False]"]
        rates_zero_guard [where fl = exact_arith and students = "[row (Some 20) True]"]
  by (simp add: row_def bmi_in_def truthy_def round1_def exact_arith_def)

subsection \<open>C7: the empty collection\<close>

text \<open>
  C7. For the empty collection \<^verbatim>\<open>_calculate_accurate_bmi_distribution\<close> returns (it
  does not raise) the summary in which each of the five counts is 0.
\<close>

theorem empty_input_all_zero:
  "calculate_accurate_bmi_distribution [] =
     Inr [''normal'' \<mapsto> 0, ''wasted'' \<mapsto> 0, ''severely_wasted'' \<mapsto> 0,
          ''overweight'' \<mapsto> 0, ''obese'' \<mapsto> 0]"
  by (simp add: calculate_accurate_bmi_distribution_def dist5_def)

subsection \<open>C8: the order of the records\<close>

text \<open>
  C8. Two lists with the same records, in any order, have the same summary.
\<close>

theorem aggregate_order_independent:
  "mset xs = mset ys \<Longrightarrow>
   calculate_accurate_bmi_distribution xs = calculate_accurate_bmi_distribution ys"
  by (simp add: accurate_closed count_where_mset [of xs ys])

theorem aggregate_order_independent_witness:
  "mset [row (Some 15) False, row None True, row (Some 27) False] =
     mset [row (Some 27) False, row (Some 15) False, row None True] \<and>
   calculate_accurate_bmi_distribution [row (Some 15) False, row None True, row (Some 27) False] =
     calculate_accurate_bmi_distribution [row (Some 27) False, row (Some 15) False, row None True]"
  using aggregate_order_independent
          [of "[row (Some 15) False, row None True, row (Some 27) False]"
              "[row (Some 27) False, row (Some 15) False, row None True]"]
  by simp

subsection \<open>C9: no aggregation function raises\<close>

text \<open>
  C9. For every input, \<^verbatim>\<open>_calculate_accurate_bmi_distribution\<close>,
  \<^verbatim>\<open>_calculate_progress_trends\<close> and \<^verbatim>\<open>_calculate_health_metrics\<close> return a summary
  and raise nothing: the first one a dictionary with all five keys. The empty collection
  gives the all-zero summary of each, and so does, for the progress trends, a record
  without bmi (the comparison raises inside the \<^verbatim>\<open>try\<close>) or a database that raises.
\<close>

theorem aggregation_never_raises:
  "(\<exists>d. calculate_accurate_bmi_distribution students = Inr d \<and>
        dom d = {''severely_wasted'', ''wasted'', ''normal'', ''overweight'', ''obese''})
   \<and> (\<exists>t. calculate_progress_trends fl db students = Inr t)
   \<and> (\<exists>h. calculate_health_metrics fl students = Inr h)
   \<and> calculate_accurate_bmi_distribution [] = Inr (dist5 0 0 0 0 0)
   \<and> calculate_progress_trends fl db [] = Inr no_trends
   \<and> calculate_health_metrics fl [] = Inr no_health_metrics
   \<and> ((\<exists>s\<in>set students. bmi s = None) \<longrightarrow>
        calculate_progress_trends fl db students = Inr no_trends)
   \<and> (\<forall>e. calculate_progress_trends fl (Inl e) students = Inr no_trends)"
proof (intro conjI)
  show "\<exists>d. calculate_accurate_bmi_distribution students = Inr d \<and>
        dom d = {''severely_wasted'', ''wasted'', ''normal'', ''overweight'', ''obese''}"
    unfolding accurate_closed by (auto simp: dist5_def)
  show "\<exists>t. calculate_progress_trends fl db students = Inr t"
    unfolding calculate_progress_trends_def by (rule try_except_default)
  show "\<exists>h. calculate_health_metrics fl students = Inr h"
    unfolding calculate_health_metrics_def by (rule try_except_default)
  show "calculate_accurate_bmi_distribution [] = Inr (dist5 0 0 0 0 0)"
    by (simp add: calculate_accurate_bmi_distribution_def)
  show "calculate_progress_trends fl db [] = Inr no_trends"
    by (simp add: calculate_progress_trends_def)
  show "calculate_health_metrics fl [] = Inr no_health_metrics"
    by (simp add: calculate_health_metrics_def)
  show "(\<exists>s\<in>set students. bmi s = None) \<longrightarrow>
        calculate_progress_trends fl db students = Inr no_trends"
  proof
    assume "\<exists>s\<in>set students. bmi s = None"
    then obtain s where "s \<in> set students" "bmi s = None" by blast
    then have "comprehension (on_bmi (\<lambda>b. 18.5 \<le> b \<and> b < 25)) students = Inl TypeError"
      by (rule comprehension_raises)
    then show "calculate_progress_trends fl db students = Inr no_trends"
      by (simp add: calculate_progress_trends_def)
  qed
  show "\<forall>e. calculate_progress_trends fl (Inl e) students = Inr no_trends"
  proof
    fix e
    show "calculate_progress_trends fl (Inl e) students = Inr no_trends"
      unfolding calculate_progress_trends_def query_count_def
      by (auto simp: try_except_def bind_def split: sum.splits)
  qed
qed

theorem aggregation_never_raises_witness:
  "calculate_progress_trends exact_arith (Inr [row None False]) [row None False] =
     Inr no_trends \<and>
   calculate_progress_trends exact_arith (Inl DatabaseError) [row (Some 20) False] =
     Inr no_trends"
  using aggregation_never_raises [where fl = exact_arith and students = "[row None False]"
          and db = "Inr [row None False]"]
        aggregation_never_raises [where fl = exact_arith and students = "[row (Some 20) False]"
          and db = "Inl DatabaseError"]
  by (simp add: row_def)

subsection \<open>C10: the beneficiary flag on the two write paths\<close>

text \<open>
  C10, as amended. After an edit the flag is true exactly when the recomputed bmi is
  present, not 0, and below 18.5 or at least 25, and false otherwise (the test
  \<^verbatim>\<open>if student.bmi and ...\<close> takes a bmi of 0 as no bmi). Creation sets the flag to
  true under the same condition and otherwise leaves it as it was, so the two paths
  differ: on a student whose flag is set and whose bmi is 20, the edit clears the flag
  and the creation keeps it.
\<close>

theorem beneficiary_flag_write_paths:
  "is_beneficiary (edit_student calculate_bmi st) =
     (case bmi (calculate_bmi st) of None \<Rightarrow> False
      | Some b \<Rightarrow> b \<noteq> 0 \<and> (b < 18.5 \<or> 25 \<le> b))
   \<and> is_beneficiary (create_student calculate_bmi st) =
     ((case bmi (calculate_bmi st) of None \<Rightarrow> False
       | Some b \<Rightarrow> b \<noteq> 0 \<and> (b < 18.5 \<or> 25 \<le> b))
      \<or> is_beneficiary (calculate_bmi st))
   \<and> is_beneficiary (create_student (\<lambda>s. s) (row (Some 20) True)) \<noteq>
     is_beneficiary (edit_student (\<lambda>s. s) (row (Some 20) True))"
  by (auto simp: edit_student_def create_student_def unhealthy_bmi_def truthy_def Let_def row_def
           split: option.splits)

theorem beneficiary_flag_write_paths_witness:
  "is_beneficiary (edit_student (\<lambda>s. s) (row (Some 17) False)) \<and>
   \<not> is_beneficiary (edit_student (\<lambda>s. s) (row (Some 20) True)) \<and>
   is_beneficiary (create_student (\<lambda>s. s) (row (Some 20) True))"
  using beneficiary_flag_write_paths [of "\<lambda>s. s" "row (Some 17) False"]
        beneficiary_flag_write_paths [of "\<lambda>s. s" "row (Some 20) True"]
  by (simp add: row_def)

text \<open>
  Where the claim fails as stated: a bmi of 0 is present and below 18.5, and the edit
  stores the flag as false.
\<close>

theorem beneficiary_flag_write_paths_counterexample:
  "bmi (row (Some 0) True) = Some 0 \<and> (0 :: rat) < 18.5 \<and>
   \<not> is_beneficiary (edit_student (\<lambda>s. s) (row (Some 0) True))"
  by (simp add: edit_student_def unhealthy_bmi_def truthy_def row_def)

end
